theory Spec2Isabelle
  imports Complex_Main "HOL-Library.Log_Nat"
begin

section \<open>The analytics dashboard script\<close>

text \<open>
  A shallow embedding of the dashboard script (the file of 643 lines that starts with
  \<^verbatim>\<open>Analytics Dashboard JavaScript\<close>): the three module variables \<^verbatim>\<open>currentUser\<close>,
  \<^verbatim>\<open>analyticsData\<close> and \<^verbatim>\<open>charts\<close>, the parts of the page the functions read and write,
  and the calls they make into the browser and the charting library, kept as a trace.

  Conventions.
  \<^item> The counters of a snapshot are integers in JavaScript's safe range, where \<open>-\<close> and
    \<open>Math.abs\<close> are exact; they are modelled as \<open>int\<close>. Division and multiplication round
    to IEEE binary64 and are modelled with the rounding written out.
  \<^item> \<open>toLocaleString\<close> and \<open>toLocaleDateString\<close> depend on the browser's locale; their
    results are kept symbolically (\<open>NumberLocaleString\<close>, \<open>DateLocaleString\<close>).
  \<^item> The elements the script looks up by id are taken to be on the page. The one element
    the script itself takes off the page is the language canvas (line 422 replaces the
    content of its parent), and that is modelled. The markup of the page is not among the
    sources, so whether the metric cards sit inside the metrics grid is not known; they
    stay addressable when \<open>showEmptyState\<close> replaces the content of the grid.
  \<^item> An \<open>async\<close> function is split where it awaits the network: \<open>_begin\<close> runs up to the
    \<open>fetch\<close>, \<open>_resume\<close> runs from the response to the end.
\<close>

subsection \<open>JavaScript numbers: binary64 division, multiplication and \<open>toFixed(1)\<close>\<close>

text \<open>A finite number \<open>Finite m e\<close> has the value \<open>m * 2 ^ e\<close>.\<close>

datatype number = Finite int int | PosInfinity | NegInfinity | NaN

definition number_value :: "number \<Rightarrow> rat" where
  "number_value x = (case x of Finite m e \<Rightarrow> of_int m * 2 powi e | _ \<Rightarrow> 0)"

text \<open>The integer nearest to \<open>n / d\<close> (for \<open>0 \<le> n\<close>, \<open>0 < d\<close>), ties to the even one.\<close>

definition round_half_even :: "int \<Rightarrow> int \<Rightarrow> int" where
  "round_half_even n d =
     (let k = n div d; r = n mod d
      in if 2 * r < d then k
         else if d < 2 * r then k + 1
         else if even k then k else k + 1)"

text \<open>
  Rounding the positive fraction \<open>n / d\<close> to a 53-bit significand: the result \<open>(m, e)\<close>
  stands for \<open>m * 2 ^ e\<close>, where \<open>2 ^ 52 \<le> n / d * 2 ^ (- e) < 2 ^ 53\<close> and \<open>m\<close> is that
  scaled fraction rounded to the nearest integer, ties to even. The operands of the
  script are far from the overflow and underflow thresholds of binary64.
\<close>

definition round_binary64 :: "int \<Rightarrow> int \<Rightarrow> int \<times> int" where
  "round_binary64 n d =
     (let k0 = 53 - (bitlen n - bitlen d);
          k = (if (if 0 \<le> k0 then 2 ^ 53 * d \<le> n * 2 ^ nat k0
                   else 2 ^ 53 * (d * 2 ^ nat (- k0)) \<le> n) then k0 - 1 else k0)
      in (if 0 \<le> k then round_half_even (n * 2 ^ nat k) d
          else round_half_even n (d * 2 ^ nat (- k)), - k))"

text \<open>\<^verbatim>\<open>p / q\<close> on two integer-valued numbers.\<close>

definition js_div :: "int \<Rightarrow> int \<Rightarrow> number" where
  "js_div p q =
     (if q = 0 then (if p = 0 then NaN else if 0 < p then PosInfinity else NegInfinity)
      else if p = 0 then Finite 0 0
      else (let (m, e) = round_binary64 \<bar>p\<bar> \<bar>q\<bar>
            in Finite (sgn p * sgn q * m) e))"

text \<open>\<^verbatim>\<open>x * c\<close> for a number \<open>x\<close> and an integer constant \<open>c\<close> (the script has \<open>c = 100\<close>).\<close>

definition js_mul_int :: "number \<Rightarrow> int \<Rightarrow> number" where
  "js_mul_int x c =
     (case x of
        Finite m e \<Rightarrow>
          (if m * c = 0 then Finite 0 0
           else (let (m', e') = round_binary64 \<bar>m * c\<bar> 1
                 in Finite (sgn (m * c) * m') (e + e')))
      | PosInfinity \<Rightarrow> (if c = 0 then NaN else if 0 < c then PosInfinity else NegInfinity)
      | NegInfinity \<Rightarrow> (if c = 0 then NaN else if 0 < c then NegInfinity else PosInfinity)
      | NaN \<Rightarrow> NaN)"

fun digits :: "nat \<Rightarrow> string" where
  "digits n = (if n < 10 then [''0123456789'' ! n]
               else digits (n div 10) @ [''0123456789'' ! (n mod 10)])"

declare digits.simps [simp del]

text \<open>
  \<^verbatim>\<open>Number.prototype.toFixed\<close> with one fraction digit, for a magnitude below \<open>10 ^ 21\<close>:
  \<open>n\<close> is the integer for which \<open>n / 10\<close> is nearest to the magnitude of the number, the
  larger one if two are equally near; the sign is printed when the number is below zero.
\<close>

definition toFixed1_tenths :: "int \<Rightarrow> int \<Rightarrow> nat" where
  "toFixed1_tenths m e =
     (if 0 \<le> e then nat (10 * \<bar>m\<bar> * 2 ^ nat e)
      else nat ((2 * (10 * \<bar>m\<bar>) + 2 ^ nat (- e)) div (2 * 2 ^ nat (- e))))"

definition fixed1_string :: "bool \<Rightarrow> nat \<Rightarrow> string" where
  "fixed1_string neg n =
     (let ds = digits n;
          ds' = (if length ds \<le> 1 then replicate (2 - length ds) CHR ''0'' @ ds else ds)
      in (if neg then ''-'' else '''') @ butlast ds' @ ''.'' @ [last ds'])"

definition toFixed1 :: "number \<Rightarrow> string" where
  "toFixed1 x =
     (case x of
        Finite m e \<Rightarrow> fixed1_string (m < 0) (toFixed1_tenths m e)
      | PosInfinity \<Rightarrow> ''Infinity''
      | NegInfinity \<Rightarrow> ''-Infinity''
      | NaN \<Rightarrow> ''NaN'')"

text \<open>A value that is either a number literal or a string, as \<^verbatim>\<open>percentChange\<close> is.\<close>

datatype js_value = JSNumber int | JSString string

subsection \<open>Data model\<close>

text \<open>
  One element of \<^verbatim>\<open>data.snapshots\<close>. \<^verbatim>\<open>contribution_count\<close> and \<^verbatim>\<open>language_stats\<close> may be
  absent. \<^verbatim>\<open>language_stats\<close> is an object from language names to weights, kept as an
  association list in the object's key order (an object has no duplicate keys).
\<close>

record snapshot =
  snapshot_date :: string
  stars :: int
  followers :: int
  following :: int
  public_repos :: int
  total_commits :: int
  contribution_count :: "int option"
  language_stats :: "(string \<times> int) list option"

datatype content = Plain string | NumberLocaleString int | DateLocaleString string

datatype color = Color string | Palette "string list"

record dataset =
  ds_label :: "string option"
  ds_data :: "int list"
  backgroundColor :: color
  borderColor :: string
  borderWidth :: nat
  fill :: "bool option"

text \<open>
  A chart object made by \<^verbatim>\<open>new Chart(ctx, config)\<close>: the canvas it draws on and the type,
  labels and datasets of its configuration. The options of the configuration are constants
  that depend neither on the data nor on the state and are left out. \<open>chart_id\<close> tells one
  object from another.
\<close>

record chart =
  chart_id :: nat
  canvas :: string
  chart_type :: string
  labels :: "content list"
  datasets :: "dataset list"

datatype glyph = ArrowUp | ArrowDown | ArrowRight

text \<open>
  What \<^verbatim>\<open>updateMetricChange\<close> writes into a change indicator: the class name, and the three
  parts of the text \<^verbatim>\<open>${symbol} ${Math.abs(change).toLocaleString()} (${percentChange}%)\<close>.
\<close>

record change_el =
  className :: string
  symbol :: glyph
  magnitude :: content
  percentChange :: js_value

datatype grid_html = MetricCards | NoAnalyticsData

datatype card_html = LanguageCanvas | NoLanguageData

text \<open>
  What can be thrown: an \<^verbatim>\<open>Error\<close> or a \<^verbatim>\<open>TypeError\<close> with its message, or the reason of a
  rejected promise (\<^verbatim>\<open>fetch\<close>, \<^verbatim>\<open>json()\<close>, \<^verbatim>\<open>blob()\<close>), which the script never looks into.
\<close>

datatype js_error = Error string | TypeError string | Rejected

text \<open>
  The calls that leave the script, in the order they are made. \<open>ConsoleError\<close> carries the
  text and, where the script passes one, the error object.
\<close>

datatype effect =
    ConsoleWarn string
  | ConsoleError string "js_error option"
  | ConsoleLog string
  | Alert string
  | ChartDestroy nat
  | ChartNew chart
  | Download string string

text \<open>The module variables, the page, local storage and the trace of outside calls.\<close>

record page =
  currentUser :: "string option"
  authToken :: "string option"
  analyticsData :: "snapshot list"
  charts :: "string \<rightharpoonup> chart"
  next_chart_id :: nat
  start_date :: string
  end_date :: string
  stars_chart_type :: string
  followers_chart_type :: string
  metrics_grid :: grid_html
  metric_value :: "string \<rightharpoonup> content"
  metric_change :: "string \<rightharpoonup> change_el"
  language_card :: card_html
  table_body :: "content list list"
  export_modal_display :: string
  effects :: "effect list"

text \<open>A function that may throw returns the state it reached and, if it threw, the error.\<close>

datatype outcome = Normal page | Threw js_error page

definition outcome_page :: "outcome \<Rightarrow> page" where
  "outcome_page r = (case r of Normal s \<Rightarrow> s | Threw e s \<Rightarrow> s)"

definition and_then :: "outcome \<Rightarrow> (page \<Rightarrow> outcome) \<Rightarrow> outcome" where
  "and_then r f = (case r of Normal s \<Rightarrow> f s | Threw e s \<Rightarrow> Threw e s)"

text \<open>
  What a \<^verbatim>\<open>fetch\<close> gives back: the promise rejects, or a response arrives with its \<^verbatim>\<open>ok\<close>
  flag and a body; the body is \<open>None\<close> when reading it (\<^verbatim>\<open>json()\<close>, \<^verbatim>\<open>blob()\<close>) fails.
\<close>

datatype 'b response = NetworkError | HttpResponse bool "'b option"

text \<open>The \<^verbatim>\<open>snapshots\<close> property of the parsed body, \<open>None\<close> when it is missing.\<close>

type_synonym snapshots_body = "snapshot list option"

record load_request =
  req_startDate :: string
  req_endDate :: string
  req_token :: "string option"

record export_request =
  exp_format :: string
  exp_startDate :: string
  exp_endDate :: string
  exp_token :: "string option"

subsection \<open>Messages\<close>

definition showError :: "string \<Rightarrow> page \<Rightarrow> page" where
  "showError message s =
     s\<lparr>effects := effects s @ [ConsoleError message None, Alert message]\<rparr>"

definition showSuccess :: "string \<Rightarrow> page \<Rightarrow> page" where
  "showSuccess message s = s\<lparr>effects := effects s @ [ConsoleLog message, Alert message]\<rparr>"

definition showEmptyState :: "page \<Rightarrow> page" where
  "showEmptyState s = s\<lparr>metrics_grid := NoAnalyticsData\<rparr>"

definition showExportModal :: "page \<Rightarrow> page" where
  "showExportModal s = s\<lparr>export_modal_display := ''flex''\<rparr>"

definition hideExportModal :: "page \<Rightarrow> page" where
  "hideExportModal s = s\<lparr>export_modal_display := ''none''\<rparr>"

subsection \<open>Metrics\<close>

text \<open>
  \<^verbatim>\<open>updateMetricChange(metric, oldValue, newValue)\<close>, lines 233 to 253. The locals
  \<^verbatim>\<open>change\<close> and \<^verbatim>\<open>percentChange\<close> are the first two definitions; the third is what is
  written into the element \<^verbatim>\<open>metric-${metric}-change\<close>, the fourth writes it.
\<close>

definition metric_delta :: "int \<Rightarrow> int \<Rightarrow> int" where
  "metric_delta oldValue newValue = newValue - oldValue"

definition percent_change :: "int \<Rightarrow> int \<Rightarrow> js_value" where
  "percent_change oldValue newValue =
     (if 0 < oldValue
      then JSString (toFixed1 (js_mul_int (js_div (metric_delta oldValue newValue) oldValue) 100))
      else JSNumber 0)"

definition change_indicator :: "int \<Rightarrow> int \<Rightarrow> change_el" where
  "change_indicator oldValue newValue =
     (let change = metric_delta oldValue newValue;
          pc = percent_change oldValue newValue;
          (cn, sy) = (if 0 < change then (''positive'', ArrowUp)
                      else if change < 0 then (''negative'', ArrowDown)
                      else (''neutral'', ArrowRight))
      in \<lparr>className = ''metric-change '' @ cn, symbol = sy,
          magnitude = NumberLocaleString \<bar>change\<bar>, percentChange = pc\<rparr>)"

definition updateMetricChange :: "string \<Rightarrow> int \<Rightarrow> int \<Rightarrow> page \<Rightarrow> page" where
  "updateMetricChange metric oldValue newValue s =
     s\<lparr>metric_change := (metric_change s)
          (''metric-'' @ metric @ ''-change'' \<mapsto> change_indicator oldValue newValue)\<rparr>"

text \<open>\<^verbatim>\<open>updateMetrics()\<close>, lines 211 to 228.\<close>

definition updateMetrics :: "page \<Rightarrow> page" where
  "updateMetrics s =
     (if length (analyticsData s) = 0 then s
      else
        (let latest = analyticsData s ! (length (analyticsData s) - 1);
             first = analyticsData s ! 0;
             s1 = s\<lparr>metric_value := (metric_value s)
                     (''metric-stars'' \<mapsto> NumberLocaleString (stars latest),
                      ''metric-followers'' \<mapsto> NumberLocaleString (followers latest),
                      ''metric-repos'' \<mapsto> NumberLocaleString (public_repos latest),
                      ''metric-commits'' \<mapsto> NumberLocaleString (total_commits latest))\<rparr>
         in updateMetricChange ''commits'' (total_commits first) (total_commits latest)
             (updateMetricChange ''repos'' (public_repos first) (public_repos latest)
               (updateMetricChange ''followers'' (followers first) (followers latest)
                 (updateMetricChange ''stars'' (stars first) (stars latest) s1)))))"

subsection \<open>Charts\<close>

definition COLORS_primary :: string where "COLORS_primary = ''#6366f1''"
definition COLORS_secondary :: string where "COLORS_secondary = ''#8b5cf6''"
definition COLORS_success :: string where "COLORS_success = ''#10b981''"
definition COLORS_warning :: string where "COLORS_warning = ''#f59e0b''"
definition COLORS_danger :: string where "COLORS_danger = ''#ef4444''"
definition COLORS_info :: string where "COLORS_info = ''#3b82f6''"
definition COLORS_gradient :: "string list" where
  "COLORS_gradient = [''#6366f1'', ''#8b5cf6'', ''#ec4899'', ''#f59e0b'', ''#10b981'']"

text \<open>\<^verbatim>\<open>if (charts.k) { charts.k.destroy(); }\<close>: the registry keeps its reference.\<close>

definition destroy_previous :: "string \<Rightarrow> page \<Rightarrow> page" where
  "destroy_previous k s =
     (case charts s k of
        None \<Rightarrow> s
      | Some c \<Rightarrow> s\<lparr>effects := effects s @ [ChartDestroy (chart_id c)]\<rparr>)"

text \<open>\<^verbatim>\<open>charts.k = new Chart(ctx, {type, data: {labels, datasets}, options})\<close>.\<close>

definition new_Chart :: "string \<Rightarrow> string \<Rightarrow> string \<Rightarrow> content list \<Rightarrow> dataset list \<Rightarrow> page \<Rightarrow> page" where
  "new_Chart k cv ty ls ds s =
     (let c = \<lparr>chart_id = next_chart_id s, canvas = cv, chart_type = ty,
                labels = ls, datasets = ds\<rparr>
      in s\<lparr>charts := (charts s)(k \<mapsto> c),
           next_chart_id := Suc (next_chart_id s),
           effects := effects s @ [ChartNew c]\<rparr>)"

text \<open>The labels \<^verbatim>\<open>analyticsData.map(d => new Date(d.snapshot_date).toLocaleDateString())\<close>.\<close>

definition date_labels :: "snapshot list \<Rightarrow> content list" where
  "date_labels xs = map (\<lambda>d. DateLocaleString (snapshot_date d)) xs"

text \<open>The dataset of a chart whose look follows the chosen type (stars, followers).\<close>

definition typed_dataset :: "string \<Rightarrow> string \<Rightarrow> string \<Rightarrow> int list \<Rightarrow> dataset" where
  "typed_dataset chartType lbl col vs =
     \<lparr>ds_label = Some lbl, ds_data = vs,
      backgroundColor = Color (if chartType = ''bar'' then col else col @ ''20''),
      borderColor = col, borderWidth = 2, fill = Some (chartType = ''line'')\<rparr>"

text \<open>\<^verbatim>\<open>renderStarsChart()\<close>, lines 270 to 297.\<close>

definition renderStarsChart :: "page \<Rightarrow> page" where
  "renderStarsChart s =
     (let chartType = stars_chart_type s;
          s1 = destroy_previous ''stars'' s;
          ls = date_labels (analyticsData s1);
          vs = map stars (analyticsData s1)
      in new_Chart ''stars'' ''stars-chart'' chartType ls
           [typed_dataset chartType ''Total Stars'' COLORS_primary vs] s1)"

text \<open>\<^verbatim>\<open>renderFollowersChart()\<close>, lines 302 to 341.\<close>

definition renderFollowersChart :: "page \<Rightarrow> page" where
  "renderFollowersChart s =
     (let chartType = followers_chart_type s;
          s1 = destroy_previous ''followers'' s;
          ls = date_labels (analyticsData s1);
          followersData = map followers (analyticsData s1);
          followingData = map following (analyticsData s1)
      in new_Chart ''followers'' ''followers-chart'' chartType ls
           [typed_dataset chartType ''Followers'' COLORS_success followersData,
            typed_dataset chartType ''Following'' COLORS_info followingData] s1)"

text \<open>\<^verbatim>\<open>renderReposChart()\<close>, lines 346 to 372.\<close>

definition renderReposChart :: "page \<Rightarrow> page" where
  "renderReposChart s =
     (let s1 = destroy_previous ''repos'' s;
          ls = date_labels (analyticsData s1);
          vs = map public_repos (analyticsData s1)
      in new_Chart ''repos'' ''repos-chart'' ''line'' ls
           [\<lparr>ds_label = Some ''Public Repositories'', ds_data = vs,
             backgroundColor = Color (COLORS_secondary @ ''20''),
             borderColor = COLORS_secondary, borderWidth = 2, fill = Some True\<rparr>] s1)"

text \<open>\<^verbatim>\<open>renderCommitsChart()\<close>, lines 377 to 401.\<close>

definition renderCommitsChart :: "page \<Rightarrow> page" where
  "renderCommitsChart s =
     (let s1 = destroy_previous ''commits'' s;
          ls = date_labels (analyticsData s1);
          vs = map total_commits (analyticsData s1)
      in new_Chart ''commits'' ''commits-chart'' ''bar'' ls
           [\<lparr>ds_label = Some ''Total Commits'', ds_data = vs,
             backgroundColor = Color COLORS_warning,
             borderColor = COLORS_warning, borderWidth = 1, fill = None\<rparr>] s1)"

text \<open>
  \<^verbatim>\<open>renderLanguageChart()\<close>, lines 406 to 456. Line 407 reads
  \<^verbatim>\<open>document.getElementById('language-chart').getContext('2d')\<close>: once line 422 has replaced
  the content of the canvas's parent, the canvas is no longer in the document, the lookup
  gives \<^verbatim>\<open>null\<close> and the property access throws. Line 414 reads index \<open>length - 1\<close>; on
  an empty array that is \<^verbatim>\<open>undefined\<close>, and line 415 throws.
\<close>

definition renderLanguageChart :: "page \<Rightarrow> outcome" where
  "renderLanguageChart s =
     (if language_card s \<noteq> LanguageCanvas
      then Threw (TypeError ''Cannot read properties of null (reading getContext)'') s
      else
        (let s1 = destroy_previous ''language'' s
         in if length (analyticsData s1) = 0
            then Threw (TypeError ''Cannot read properties of undefined (reading language_stats)'') s1
            else
              (let latest = analyticsData s1 ! (length (analyticsData s1) - 1);
                   languageStats = (case language_stats latest of None \<Rightarrow> [] | Some m \<Rightarrow> m);
                   ls = map fst languageStats;
                   vs = map snd languageStats
               in if length ls = 0
                  then Normal (s1\<lparr>language_card := NoLanguageData\<rparr>)
                  else Normal (new_Chart ''language'' ''language-chart'' ''doughnut'' (map Plain ls)
                         [\<lparr>ds_label = None, ds_data = vs,
                           backgroundColor = Palette COLORS_gradient,
                           borderColor = ''#fff'', borderWidth = 2, fill = None\<rparr>] s1))))"

text \<open>\<^verbatim>\<open>renderContributionChart()\<close>, lines 461 to 487.\<close>

definition renderContributionChart :: "page \<Rightarrow> page" where
  "renderContributionChart s =
     (let s1 = destroy_previous ''contribution'' s;
          ls = date_labels (analyticsData s1);
          vs = map (\<lambda>d. case contribution_count d of None \<Rightarrow> 0 | Some n \<Rightarrow> n) (analyticsData s1)
      in new_Chart ''contribution'' ''contribution-chart'' ''line'' ls
           [\<lparr>ds_label = Some ''Contributions'', ds_data = vs,
             backgroundColor = Color (COLORS_danger @ ''20''),
             borderColor = COLORS_danger, borderWidth = 2, fill = Some True\<rparr>] s1)"

text \<open>\<^verbatim>\<open>renderCharts()\<close>, lines 258 to 265: six calls in a row; a throw ends the row.\<close>

definition renderCharts :: "page \<Rightarrow> outcome" where
  "renderCharts s =
     and_then
       (renderLanguageChart
          (renderCommitsChart (renderReposChart (renderFollowersChart (renderStarsChart s)))))
       (\<lambda>s'. Normal (renderContributionChart s'))"

text \<open>
  \<^verbatim>\<open>updateChartType(chartName, type)\<close>, lines 520 to 526. The parameter \<^verbatim>\<open>type\<close> is not
  used: the render functions read the selector themselves.
\<close>

definition updateChartType :: "string \<Rightarrow> string \<Rightarrow> page \<Rightarrow> page" where
  "updateChartType chartName type s =
     (if chartName = ''stars'' then renderStarsChart s
      else if chartName = ''followers'' then renderFollowersChart s
      else s)"

subsection \<open>Table\<close>

text \<open>\<^verbatim>\<open>updateTable()\<close>, lines 531 to 548: the body is emptied, then one row per snapshot.\<close>

definition table_row :: "snapshot \<Rightarrow> content list" where
  "table_row d =
     [DateLocaleString (snapshot_date d),
      NumberLocaleString (stars d),
      NumberLocaleString (followers d),
      NumberLocaleString (following d),
      NumberLocaleString (public_repos d),
      NumberLocaleString (total_commits d),
      NumberLocaleString (case contribution_count d of None \<Rightarrow> 0 | Some n \<Rightarrow> n)]"

definition updateTable :: "page \<Rightarrow> page" where
  "updateTable s = s\<lparr>table_body := map table_row (analyticsData s)\<rparr>"

subsection \<open>Loading\<close>

text \<open>
  \<^verbatim>\<open>loadAnalyticsData(forceRefresh)\<close>, lines 161 to 206, up to the \<^verbatim>\<open>fetch\<close> of line 176:
  the request that is sent, or none when the function returns early. The parameter
  \<^verbatim>\<open>forceRefresh\<close> is not used.
\<close>

definition loadAnalyticsData_begin :: "bool \<Rightarrow> page \<Rightarrow> page \<times> load_request option" where
  "loadAnalyticsData_begin forceRefresh s =
     (if currentUser s = None then (s, None)
      else if start_date s = [] \<or> end_date s = []
      then (s\<lparr>effects := effects s @ [ConsoleWarn ''Please select both start and end dates'']\<rparr>,
            None)
      else (s, Some \<lparr>req_startDate = start_date s, req_endDate = end_date s,
                     req_token = authToken s\<rparr>))"

text \<open>The \<^verbatim>\<open>catch\<close> block of lines 202 to 205.\<close>

definition load_catch :: "js_error \<Rightarrow> page \<Rightarrow> page" where
  "load_catch error s =
     showError ''Failed to load analytics data. Please try again.''
       (s\<lparr>effects := effects s @ [ConsoleError ''Error loading analytics data:'' (Some error)]\<rparr>)"

text \<open>
  Lines 185 to 205, from the response on. Between the two awaits (\<^verbatim>\<open>fetch\<close>,
  \<^verbatim>\<open>response.json()\<close>) the function only tests \<^verbatim>\<open>response.ok\<close>, so both are one step here.
\<close>

definition loadAnalyticsData_resume :: "snapshots_body response \<Rightarrow> page \<Rightarrow> page" where
  "loadAnalyticsData_resume r s =
     (case r of
        NetworkError \<Rightarrow> load_catch Rejected s
      | HttpResponse ok body \<Rightarrow>
          (if \<not> ok then load_catch (Error ''Failed to fetch analytics data'') s
           else
             (case body of
                None \<Rightarrow> load_catch Rejected s
              | Some snapshots \<Rightarrow>
                  (let s1 = s\<lparr>analyticsData := (case snapshots of None \<Rightarrow> [] | Some xs \<Rightarrow> xs)\<rparr>
                   in if length (analyticsData s1) = 0 then showEmptyState s1
                      else
                        (case and_then (renderCharts (updateMetrics s1))
                                (\<lambda>s'. Normal (updateTable s')) of
                           Normal s' \<Rightarrow> s'
                         | Threw e s' \<Rightarrow> load_catch e s')))))"

subsection \<open>Exporting\<close>

definition toUpperCase :: "string \<Rightarrow> string" where
  "toUpperCase cs =
     map (\<lambda>c. let n = (of_char c :: nat) in if 97 \<le> n \<and> n \<le> 122 then char_of (n - 32) else c) cs"

text \<open>\<^verbatim>\<open>exportData(format)\<close>, lines 575 to 611, up to the \<^verbatim>\<open>fetch\<close> of line 581.\<close>

definition exportData_begin :: "string \<Rightarrow> page \<Rightarrow> export_request" where
  "exportData_begin format s =
     \<lparr>exp_format = format, exp_startDate = start_date s, exp_endDate = end_date s,
      exp_token = authToken s\<rparr>"

text \<open>The \<^verbatim>\<open>catch\<close> block of lines 607 to 610.\<close>

definition export_catch :: "js_error \<Rightarrow> page \<Rightarrow> page" where
  "export_catch error s =
     showError ''Failed to export data. Please try again.''
       (s\<lparr>effects := effects s @ [ConsoleError ''Export error:'' (Some error)]\<rparr>)"

text \<open>
  Lines 590 to 610, from the response on; \<open>now\<close> is the value of \<^verbatim>\<open>Date.now()\<close>. The download
  (object URL, anchor, click) is one \<open>Download\<close> of the file name and the blob.
\<close>

definition exportData_resume :: "string \<Rightarrow> nat \<Rightarrow> string response \<Rightarrow> page \<Rightarrow> page" where
  "exportData_resume format now r s =
     (case r of
        NetworkError \<Rightarrow> export_catch Rejected s
      | HttpResponse ok body \<Rightarrow>
          (if \<not> ok then export_catch (Error ''Export failed'') s
           else
             (case body of
                None \<Rightarrow> export_catch Rejected s
              | Some blob \<Rightarrow>
                  showSuccess (''Data exported successfully as '' @ toUpperCase format)
                    (hideExportModal
                      (s\<lparr>effects := effects s @
                           [Download (''analytics-export-'' @ digits now @ ''.'' @ format) blob]\<rparr>)))))"

subsection \<open>The event loop\<close>

text \<open>
  The handlers that \<^verbatim>\<open>setupEventListeners\<close> (lines 102 to 144) attaches for the date inputs,
  the refresh button and the chart type selectors, and the arrival of a response. (The
  range buttons also start a load, after setting both dates from the clock.) A load
  that has been sent stays in \<open>pending\<close>, under the number of its issue, until its response
  arrives; the user can start another load in between.
\<close>

datatype event =
    StartDateChange string
  | EndDateChange string
  | RefreshClick
  | StarsTypeChange string
  | FollowersTypeChange string
  | LoadResponse nat

record browser =
  the_page :: page
  issued :: nat
  pending :: "(nat \<times> load_request) list"

definition issue_load :: "bool \<Rightarrow> browser \<Rightarrow> browser" where
  "issue_load forceRefresh b =
     (case loadAnalyticsData_begin forceRefresh (the_page b) of
        (s, None) \<Rightarrow> b\<lparr>the_page := s\<rparr>
      | (s, Some rq) \<Rightarrow>
          b\<lparr>the_page := s, issued := Suc (issued b), pending := pending b @ [(issued b, rq)]\<rparr>)"

text \<open>One event; \<open>server\<close> says what the backend answers to a request.\<close>

definition step :: "(load_request \<Rightarrow> snapshots_body response) \<Rightarrow> browser \<Rightarrow> event \<Rightarrow> browser" where
  "step server b ev =
     (case ev of
        StartDateChange v \<Rightarrow> issue_load False (b\<lparr>the_page := (the_page b)\<lparr>start_date := v\<rparr>\<rparr>)
      | EndDateChange v \<Rightarrow> issue_load False (b\<lparr>the_page := (the_page b)\<lparr>end_date := v\<rparr>\<rparr>)
      | RefreshClick \<Rightarrow> issue_load True b
      | StarsTypeChange v \<Rightarrow>
          b\<lparr>the_page := updateChartType ''stars'' v ((the_page b)\<lparr>stars_chart_type := v\<rparr>)\<rparr>
      | FollowersTypeChange v \<Rightarrow>
          b\<lparr>the_page := updateChartType ''followers'' v ((the_page b)\<lparr>followers_chart_type := v\<rparr>)\<rparr>
      | LoadResponse k \<Rightarrow>
          (case map_of (pending b) k of
             None \<Rightarrow> b
           | Some rq \<Rightarrow>
               b\<lparr>the_page := loadAnalyticsData_resume (server rq) (the_page b),
                  pending := filter (\<lambda>(i, _). i \<noteq> k) (pending b)\<rparr>))"

definition run :: "(load_request \<Rightarrow> snapshots_body response) \<Rightarrow> browser \<Rightarrow> event list \<Rightarrow> browser" where
  "run server b evs = foldl (step server) b evs"

subsection \<open>Sample data\<close>

text \<open>Two ranges of snapshots, a signed-in page and a backend, for the concrete runs below.\<close>

definition january :: "snapshot list" where
  "january =
     [\<lparr>snapshot_date = ''2024-01-01'', stars = 10, followers = 3, following = 2,
       public_repos = 5, total_commits = 100, contribution_count = None, language_stats = None\<rparr>,
      \<lparr>snapshot_date = ''2024-01-31'', stars = 25, followers = 7, following = 4,
       public_repos = 5, total_commits = 90, contribution_count = Some 12, language_stats = None\<rparr>]"

definition february :: "snapshot list" where
  "february =
     [\<lparr>snapshot_date = ''2024-02-01'', stars = 25, followers = 7, following = 4,
       public_repos = 5, total_commits = 90, contribution_count = Some 12,
       language_stats = Some [(''JavaScript'', 70), (''CSS'', 30)]\<rparr>,
      \<lparr>snapshot_date = ''2024-02-29'', stars = 31, followers = 9, following = 4,
       public_repos = 6, total_commits = 140, contribution_count = Some 20,
       language_stats = Some [(''JavaScript'', 60), (''Python'', 40)]\<rparr>]"

definition signed_in_page :: page where
  "signed_in_page =
     \<lparr>currentUser = Some ''octocat'', authToken = Some ''token'', analyticsData = [],
      charts = Map.empty, next_chart_id = 0,
      start_date = ''2023-12-01'', end_date = ''2024-03-31'',
      stars_chart_type = ''line'', followers_chart_type = ''line'',
      metrics_grid = MetricCards, metric_value = Map.empty, metric_change = Map.empty,
      language_card = LanguageCanvas, table_body = [],
      export_modal_display = ''none'', effects = []\<rparr>"

definition signed_in_browser :: browser where
  "signed_in_browser = \<lparr>the_page = signed_in_page, issued = 0, pending = []\<rparr>"

definition range_server :: "load_request \<Rightarrow> snapshots_body response" where
  "range_server rq =
     (if req_startDate rq = ''2024-01-01'' then HttpResponse True (Some (Some january))
      else HttpResponse True (Some (Some february)))"

section \<open>Properties\<close>

subsection \<open>Rounding\<close>

text \<open>
  The rounding of a fraction to binary64 has a significand of 53 bits and a relative error
  of at most \<open>2 ^ - 53\<close>; \<open>toFixed(1)\<close> picks the nearest tenth.
\<close>

lemma round_half_even_int:
  assumes "0 < d"
  shows "\<bar>2 * (round_half_even n d * d - n)\<bar> \<le> d"
proof -
  define k where "k = n div d"
  define r where "r = n mod d"
  have n: "n = k * d + r" by (simp add: k_def r_def)
  have r: "0 \<le> r" "r < d" using assms by (simp_all add: r_def)
  have "round_half_even n d = k \<and> 2 * r \<le> d \<or> round_half_even n d = k + 1 \<and> d \<le> 2 * r"
    by (auto simp: round_half_even_def Let_def k_def r_def)
  then show ?thesis
  proof
    assume "round_half_even n d = k \<and> 2 * r \<le> d"
    then show ?thesis using r by (simp add: n)
  next
    assume h: "round_half_even n d = k + 1 \<and> d \<le> 2 * r"
    then have "round_half_even n d * d - n = d - r" by (simp add: n algebra_simps)
    then show ?thesis using r h by simp
  qed
qed

lemma round_half_even_rat:
  assumes "0 < d"
  shows "\<bar>of_int (round_half_even n d) - (of_int n / of_int d :: rat)\<bar> \<le> 1 / 2"
proof -
  have d: "(0::rat) < of_int d" using assms by simp
  have "of_int \<bar>2 * (round_half_even n d * d - n)\<bar> \<le> (of_int d :: rat)"
    using round_half_even_int [OF assms, of n] by (simp only: of_int_le_iff)
  then have "\<bar>2 * (of_int (round_half_even n d) * of_int d - (of_int n :: rat))\<bar> \<le> of_int d"
    by (simp only: of_int_abs of_int_mult of_int_diff of_int_numeral)
  then have "2 * \<bar>of_int (round_half_even n d) * of_int d - (of_int n :: rat)\<bar> \<le> of_int d"
    by (simp only: abs_mult abs_numeral)
  moreover have "of_int (round_half_even n d) - (of_int n / of_int d :: rat)
      = (of_int (round_half_even n d) * of_int d - of_int n) / of_int d"
    using d by (simp add: field_simps)
  ultimately show ?thesis
    using d by (simp add: abs_divide field_simps)
qed


lemma powi_nat_cases:
  "(2::rat) powi k = (if 0 \<le> k then 2 ^ nat k else 1 / 2 ^ nat (- k))"
  by (simp add: power_int_def field_simps)

lemma scaled_fraction:
  assumes "0 < d"
  shows "(if 0 \<le> k then of_int (n * 2 ^ nat k) / of_int d
          else of_int n / of_int (d * 2 ^ nat (- k))) = (of_int n / of_int d :: rat) * 2 powi k"
  using assms by (simp add: powi_nat_cases)

lemma scaled_test:
  assumes "0 < d"
  shows "(if 0 \<le> k then 2 ^ 53 * d \<le> n * 2 ^ nat k else 2 ^ 53 * (d * 2 ^ nat (- k)) \<le> n)
         \<longleftrightarrow> (2::rat) ^ 53 \<le> (of_int n / of_int d) * 2 powi k"
proof (cases "0 \<le> k")
  case True
  have "(2 ^ 53 * d \<le> n * 2 ^ nat k) \<longleftrightarrow> ((of_int (2 ^ 53 * d) :: rat) \<le> of_int (n * 2 ^ nat k))"
    by (simp only: of_int_le_iff)
  also have "\<dots> \<longleftrightarrow> (2::rat) ^ 53 \<le> (of_int n / of_int d) * 2 ^ nat k"
    using assms by (simp add: field_simps)
  finally show ?thesis using True by (simp add: powi_nat_cases)
next
  case False
  have "(2 ^ 53 * (d * 2 ^ nat (- k)) \<le> n)
      \<longleftrightarrow> ((of_int (2 ^ 53 * (d * 2 ^ nat (- k))) :: rat) \<le> of_int n)"
    by (simp only: of_int_le_iff)
  also have "\<dots> \<longleftrightarrow> (2::rat) ^ 53 \<le> (of_int n / of_int d) * (1 / 2 ^ nat (- k))"
    using assms by (simp add: field_simps)
  finally show ?thesis using False by (simp add: powi_nat_cases)
qed

lemma bitlen_rat_bounds:
  assumes "0 < n"
  shows "(2::rat) powi (bitlen n - 1) \<le> of_int n" "(of_int n :: rat) < 2 powi (bitlen n)"
proof -
  have b: "2 ^ nat (bitlen n - 1) \<le> n" "n < 2 ^ nat (bitlen n)"
    using bitlen_bounds [OF assms] by simp_all
  have ge: "1 \<le> bitlen n" using assms by (simp add: bitlen_alt_def)
  have "(of_int (2 ^ nat (bitlen n - 1)) :: rat) \<le> of_int n"
    using b(1) by (simp only: of_int_le_iff)
  then show "(2::rat) powi (bitlen n - 1) \<le> of_int n"
    using ge by (simp add: powi_nat_cases)
  have "(of_int n :: rat) < of_int (2 ^ nat (bitlen n))"
    using b(2) by (simp only: of_int_less_iff)
  then show "(of_int n :: rat) < 2 powi (bitlen n)"
    using ge by (simp add: powi_nat_cases)
qed

lemma round_binary64_scaled:
  assumes n: "0 < n" and d: "0 < d" and r: "round_binary64 n d = (m, e)"
  shows "2 ^ 52 \<le> (of_int n / of_int d :: rat) * 2 powi (- e)"
    and "(of_int n / of_int d :: rat) * 2 powi (- e) < 2 ^ 53"
    and "\<bar>of_int m - (of_int n / of_int d :: rat) * 2 powi (- e)\<bar> \<le> 1 / 2"
proof -
  define X where "X = (of_int n / of_int d :: rat)"
  define k0 where "k0 = 53 - (bitlen n - bitlen d)"
  define T where "T \<longleftrightarrow> (2::rat) ^ 53 \<le> X * 2 powi k0"
  define k where "k = (if T then k0 - 1 else k0)"
  have test: "(if 0 \<le> k0 then 2 ^ 53 * d \<le> n * 2 ^ nat k0
               else 2 ^ 53 * (d * 2 ^ nat (- k0)) \<le> n) \<longleftrightarrow> T"
    unfolding T_def X_def by (rule scaled_test [OF d])
  have e: "e = - k"
    and m: "m = (if 0 \<le> k then round_half_even (n * 2 ^ nat k) d
                 else round_half_even n (d * 2 ^ nat (- k)))"
    using r unfolding round_binary64_def Let_def k_def k0_def [symmetric] test by simp_all
  have Xpos: "0 < X" using n d by (simp add: X_def)
  have dn: "(2::rat) powi (bitlen n - 1) \<le> of_int n" "(of_int n :: rat) < 2 powi (bitlen n)"
    using bitlen_rat_bounds [OF n] by simp_all
  have dd: "(2::rat) powi (bitlen d - 1) \<le> of_int d" "(of_int d :: rat) < 2 powi (bitlen d)"
    using bitlen_rat_bounds [OF d] by simp_all
  have dpos: "(0::rat) < of_int d" using d by simp
  have lo: "(2::rat) powi (bitlen n - 1 - bitlen d) < X"
  proof -
    have "(2::rat) powi (bitlen n - 1 - bitlen d) * of_int d < 2 powi (bitlen n - 1 - bitlen d) * 2 powi (bitlen d)"
      using dd(2) by (simp add: mult_strict_left_mono)
    also have "\<dots> = 2 powi (bitlen n - 1)"
      by (simp flip: power_int_add)
    also have "\<dots> \<le> of_int n" by (rule dn(1))
    finally show ?thesis using dpos by (simp add: X_def field_simps)
  qed
  have hi: "X < (2::rat) powi (bitlen n - bitlen d + 1)"
  proof -
    have "(of_int n :: rat) < 2 powi (bitlen n)" by (rule dn(2))
    also have "\<dots> = 2 powi (bitlen n - bitlen d + 1) * 2 powi (bitlen d - 1)"
      by (simp flip: power_int_add)
    also have "\<dots> \<le> 2 powi (bitlen n - bitlen d + 1) * of_int d"
      using dd(1) by (simp add: mult_left_mono)
    finally show ?thesis using dpos by (simp add: X_def field_simps)
  qed
  have lo0: "(2::rat) ^ 52 < X * 2 powi k0"
  proof -
    have "(2::rat) powi (bitlen n - 1 - bitlen d) * 2 powi k0 < X * 2 powi k0"
      using lo by (simp add: mult_strict_right_mono)
    moreover have "(2::rat) powi (bitlen n - 1 - bitlen d) * 2 powi k0 = 2 powi 52"
      by (simp add: k0_def flip: power_int_add)
    ultimately show ?thesis by simp
  qed
  have hi0: "X * 2 powi k0 < (2::rat) ^ 54"
  proof -
    have "X * 2 powi k0 < (2::rat) powi (bitlen n - bitlen d + 1) * 2 powi k0"
      using hi by (simp add: mult_strict_right_mono)
    moreover have "(2::rat) powi (bitlen n - bitlen d + 1) * 2 powi k0 = 2 powi 54"
      by (simp add: k0_def flip: power_int_add)
    ultimately show ?thesis by simp
  qed
  have half: "X * 2 powi (k0 - 1) = X * 2 powi k0 / 2"
    by (simp add: power_int_diff)
  have scaled: "2 ^ 52 \<le> X * 2 powi k \<and> X * 2 powi k < 2 ^ 53"
  proof (cases T)
    case True
    then have "(2::rat) ^ 53 \<le> X * 2 powi k0" by (simp add: T_def)
    with hi0 have "2 ^ 52 \<le> X * 2 powi k0 / 2 \<and> X * 2 powi k0 / 2 < 2 ^ 53" by simp
    with True show ?thesis by (simp only: k_def if_True half)
  next
    case False
    then have "X * 2 powi k0 < (2::rat) ^ 53" by (simp add: T_def)
    with lo0 False show ?thesis by (simp add: k_def)
  qed
  show "2 ^ 52 \<le> (of_int n / of_int d :: rat) * 2 powi (- e)"
    using scaled by (simp add: e X_def)
  show "(of_int n / of_int d :: rat) * 2 powi (- e) < 2 ^ 53"
    using scaled by (simp add: e X_def)
  have "of_int m - X * 2 powi k
      = of_int m - (if 0 \<le> k then of_int (n * 2 ^ nat k) / of_int d
                    else of_int n / of_int (d * 2 ^ nat (- k)))"
    unfolding X_def by (simp only: scaled_fraction [OF d])
  also have "\<bar>\<dots>\<bar> \<le> 1 / 2"
  proof (cases "0 \<le> k")
    case True
    then show ?thesis using round_half_even_rat [OF d, of "n * 2 ^ nat k"] by (simp add: m)
  next
    case False
    have "0 < d * 2 ^ nat (- k)" using d by simp
    from round_half_even_rat [OF this, of n] False show ?thesis by (simp add: m)
  qed
  finally show "\<bar>of_int m - (of_int n / of_int d :: rat) * 2 powi (- e)\<bar> \<le> 1 / 2"
    by (simp add: e X_def)
qed

lemma round_binary64_error:
  assumes n: "0 < n" and d: "0 < d" and r: "round_binary64 n d = (m, e)"
  shows "\<bar>of_int m * 2 powi e - (of_int n / of_int d :: rat)\<bar> \<le> (of_int n / of_int d) / 2 ^ 53"
    and "2 ^ 52 \<le> m" and "m \<le> 2 ^ 53"
proof -
  define X where "X = (of_int n / of_int d :: rat)"
  define S where "S = X * 2 powi (- e)"
  have S: "2 ^ 52 \<le> S" "S < 2 ^ 53" "\<bar>of_int m - S\<bar> \<le> 1 / 2"
    using round_binary64_scaled [OF n d r] by (simp_all add: S_def X_def)
  have p: "(0::rat) < 2 powi e" by simp
  have X: "X = S * 2 powi e"
    by (simp add: S_def power_int_minus)
  have "of_int m * 2 powi e - X = (of_int m - S) * 2 powi e"
    by (simp add: X algebra_simps)
  then have "\<bar>of_int m * 2 powi e - X\<bar> = \<bar>of_int m - S\<bar> * 2 powi e"
    by (simp add: abs_mult)
  also have "\<dots> \<le> (1 / 2) * 2 powi e"
    using S(3) p by (simp only: mult_right_mono less_imp_le)
  also have "\<dots> = 2 ^ 52 * 2 powi e / 2 ^ 53" by simp
  also have "\<dots> \<le> S * 2 powi e / 2 ^ 53"
    using S(1) p by (simp add: divide_right_mono mult_right_mono)
  finally show "\<bar>of_int m * 2 powi e - (of_int n / of_int d :: rat)\<bar> \<le> (of_int n / of_int d) / 2 ^ 53"
    by (simp only: X [symmetric]) (simp only: X_def)
  have near: "S - of_int m \<le> 1 / 2" "of_int m - S \<le> 1 / 2"
    using S(3) by linarith+
  have "(of_int (2 ^ 52) :: rat) - 1 / 2 \<le> of_int m" using S(1) near(1) by simp
  then have "(of_int (2 ^ 52 - 1) :: rat) < of_int m" by simp
  then have "2 ^ 52 - 1 < m" by (simp only: of_int_less_iff)
  then show "2 ^ 52 \<le> m" by simp
  have "(of_int m :: rat) < of_int (2 ^ 53) + 1 / 2" using S(2) near(2) by simp
  then have "(of_int m :: rat) < of_int (2 ^ 53 + 1)" by simp
  then have "m < 2 ^ 53 + 1" by (simp only: of_int_less_iff)
  then show "m \<le> 2 ^ 53" by simp
qed

lemma js_div_finite:
  assumes "q \<noteq> 0"
  shows "\<exists>m e. js_div p q = Finite m e \<and>
           \<bar>number_value (Finite m e) - of_int p / of_int q\<bar> \<le> \<bar>of_int p / of_int q\<bar> / 2 ^ 53"
proof (cases "p = 0")
  case True
  then show ?thesis using assms by (simp add: js_div_def number_value_def)
next
  case False
  obtain m e where r: "round_binary64 \<bar>p\<bar> \<bar>q\<bar> = (m, e)" by (cases "round_binary64 \<bar>p\<bar> \<bar>q\<bar>")
  have pq: "0 < \<bar>p\<bar>" "0 < \<bar>q\<bar>" using False assms by simp_all
  have err: "\<bar>of_int m * 2 powi e - (of_int \<bar>p\<bar> / of_int \<bar>q\<bar> :: rat)\<bar> \<le> (of_int \<bar>p\<bar> / of_int \<bar>q\<bar>) / 2 ^ 53"
    by (rule round_binary64_error(1) [OF pq r])
  define sg where "sg = sgn p * sgn q"
  have sg: "sg = 1 \<or> sg = - 1" using False assms by (auto simp: sg_def sgn_if)
  have val: "(of_int p / of_int q :: rat) = of_int sg * (of_int \<bar>p\<bar> / of_int \<bar>q\<bar>)"
    using False assms by (auto simp: sg_def sgn_if abs_if)
  have ab: "\<bar>of_int p / of_int q :: rat\<bar> = of_int \<bar>p\<bar> / of_int \<bar>q\<bar>"
    by simp
  have eq: "js_div p q = Finite (sg * m) e"
    using False assms r by (simp add: js_div_def sg_def)
  have "\<bar>number_value (Finite (sg * m) e) - of_int p / of_int q\<bar>
      = \<bar>of_int m * 2 powi e - (of_int \<bar>p\<bar> / of_int \<bar>q\<bar> :: rat)\<bar>"
    using sg by (auto simp: number_value_def val algebra_simps abs_minus_commute)
  also note err
  also have "(of_int \<bar>p\<bar> / of_int \<bar>q\<bar> :: rat) / 2 ^ 53 = \<bar>of_int p / of_int q\<bar> / 2 ^ 53"
    by (simp only: ab)
  finally show ?thesis using eq by blast
qed

lemma js_mul_int_finite:
  "\<exists>m' e'. js_mul_int (Finite m e) c = Finite m' e' \<and>
      \<bar>number_value (Finite m' e') - number_value (Finite m e) * of_int c\<bar>
        \<le> \<bar>number_value (Finite m e) * of_int c\<bar> / 2 ^ 53"
proof (cases "m * c = 0")
  case True
  then show ?thesis by (auto simp: js_mul_int_def number_value_def)
next
  case False
  obtain m1 e1 where r: "round_binary64 \<bar>m * c\<bar> 1 = (m1, e1)" by (cases "round_binary64 \<bar>m * c\<bar> 1")
  have pos: "0 < \<bar>m * c\<bar>" "(0::int) < 1" using False by simp_all
  have err: "\<bar>of_int m1 * 2 powi e1 - (of_int \<bar>m * c\<bar> :: rat)\<bar> \<le> of_int \<bar>m * c\<bar> / 2 ^ 53"
    using round_binary64_error(1) [OF pos r] by simp
  define sg where "sg = sgn (m * c)"
  have sg: "sg = 1 \<or> sg = - 1" using False by (auto simp: sg_def sgn_if)
  have val: "(of_int (m * c) :: rat) = of_int sg * of_int \<bar>m * c\<bar>"
    using False by (auto simp: sg_def sgn_if abs_if)
  have p: "(0::rat) < 2 powi e" by simp
  have eq: "js_mul_int (Finite m e) c = Finite (sg * m1) (e + e1)"
    using False r by (simp add: js_mul_int_def sg_def)
  have "number_value (Finite (sg * m1) (e + e1)) - number_value (Finite m e) * of_int c
      = of_int sg * (of_int m1 * 2 powi e1 - of_int \<bar>m * c\<bar>) * 2 powi e"
    unfolding number_value_def
    using val by (simp add: power_int_add algebra_simps)
  then have "\<bar>number_value (Finite (sg * m1) (e + e1)) - number_value (Finite m e) * of_int c\<bar>
      = \<bar>of_int m1 * 2 powi e1 - (of_int \<bar>m * c\<bar> :: rat)\<bar> * 2 powi e"
    using sg by (auto simp: abs_mult)
  also have "\<dots> \<le> (of_int \<bar>m * c\<bar> / 2 ^ 53) * 2 powi e"
    using err p by (simp only: mult_right_mono less_imp_le)
  also have "\<dots> = \<bar>number_value (Finite m e) * of_int c\<bar> / 2 ^ 53"
    by (simp add: number_value_def abs_mult algebra_simps)
  finally show ?thesis using eq by blast
qed

lemma toFixed1_tenths_nearest:
  "\<bar>of_nat (toFixed1_tenths m e) - 10 * \<bar>number_value (Finite m e)\<bar>\<bar> \<le> 1 / 2"
proof (cases "0 \<le> e")
  case True
  then have "(of_nat (toFixed1_tenths m e) :: rat) = of_int (10 * \<bar>m\<bar> * 2 ^ nat e)"
    by (simp add: toFixed1_tenths_def)
  also have "\<dots> = 10 * \<bar>number_value (Finite m e)\<bar>"
    using True by (simp add: number_value_def abs_mult powi_nat_cases)
  finally show ?thesis by simp
next
  case False
  define D where "D = (2::int) ^ nat (- e)"
  define N where "N = 2 * (10 * \<bar>m\<bar>) + D"
  have D: "0 < D" by (simp add: D_def)
  have N: "0 \<le> N" using D by (simp add: N_def)
  define t where "t = N div (2 * D)"
  have t0: "0 \<le> t" using N D by (simp add: t_def pos_imp_zdiv_nonneg_iff)
  have t: "toFixed1_tenths m e = nat t"
    using False by (simp add: toFixed1_tenths_def t_def N_def D_def)
  have md: "0 \<le> N mod (2 * D)" "N mod (2 * D) < 2 * D" using D by simp_all
  have split: "N = t * (2 * D) + N mod (2 * D)"
    unfolding t_def by (rule div_mult_mod_eq [symmetric])
  have lo: "t * (2 * D) \<le> N" using md(1) split by linarith
  have hi: "N < (t + 1) * (2 * D)" using md(2) split by (simp add: algebra_simps)
  have v: "10 * \<bar>number_value (Finite m e)\<bar> = (of_int (10 * \<bar>m\<bar>) :: rat) / of_int D"
    using False by (simp add: number_value_def abs_mult powi_nat_cases D_def)
  have Dr: "(0::rat) < of_int D" using D by simp
  have "(of_int (t * (2 * D)) :: rat) \<le> of_int N" using lo by (simp only: of_int_le_iff)
  then have a: "(of_int t :: rat) * (2 * of_int D) \<le> 2 * of_int (10 * \<bar>m\<bar>) + of_int D"
    by (simp add: N_def)
  have "(of_int N :: rat) < of_int ((t + 1) * (2 * D))" using hi by (simp only: of_int_less_iff)
  then have b: "2 * of_int (10 * \<bar>m\<bar>) + of_int D < ((of_int t :: rat) + 1) * (2 * of_int D)"
    by (simp add: N_def)
  define A where "A = (of_int (10 * \<bar>m\<bar>) :: rat)"
  define T where "T = (of_int t :: rat)"
  define Q where "Q = (of_int D :: rat)"
  have Q: "0 < Q" using Dr by (simp add: Q_def)
  have a': "T * (2 * Q) \<le> 2 * A + Q" using a by (simp only: A_def T_def Q_def)
  have b': "2 * A + Q < (T + 1) * (2 * Q)" using b by (simp only: A_def T_def Q_def)
  have "T * Q - A \<le> Q / 2" using a' by (simp add: algebra_simps)
  then have "(T * Q - A) / Q \<le> (Q / 2) / Q" using Q by (simp only: divide_right_mono less_imp_le)
  then have up: "T - A / Q \<le> 1 / 2" using Q by (simp add: diff_divide_distrib)
  have "A - T * Q \<le> Q / 2" using b' by (simp add: algebra_simps)
  then have "(A - T * Q) / Q \<le> (Q / 2) / Q" using Q by (simp only: divide_right_mono less_imp_le)
  then have dn: "A / Q - T \<le> 1 / 2" using Q by (simp add: diff_divide_distrib)
  have "\<bar>T - A / Q\<bar> \<le> 1 / 2" using up dn by linarith
  then have "\<bar>(of_int t :: rat) - of_int (10 * \<bar>m\<bar>) / of_int D\<bar> \<le> 1 / 2"
    by (simp only: A_def T_def Q_def)
  then show ?thesis using t0 by (simp add: t v)
qed

subsection \<open>What the steps leave alone\<close>

lemma destroy_previous_frame [simp]:
  "analyticsData (destroy_previous k s) = analyticsData s"
  "charts (destroy_previous k s) = charts s"
  "next_chart_id (destroy_previous k s) = next_chart_id s"
  "language_card (destroy_previous k s) = language_card s"
  "table_body (destroy_previous k s) = table_body s"
  by (simp_all add: destroy_previous_def split: option.splits)

lemma destroy_previous_effects:
  "effects (destroy_previous k s) =
     effects s @ (case charts s k of None \<Rightarrow> [] | Some c \<Rightarrow> [ChartDestroy (chart_id c)])"
  by (simp add: destroy_previous_def split: option.splits)

lemma new_Chart_frame [simp]:
  "analyticsData (new_Chart k cv ty ls ds s) = analyticsData s"
  "language_card (new_Chart k cv ty ls ds s) = language_card s"
  "table_body (new_Chart k cv ty ls ds s) = table_body s"
  by (simp_all add: new_Chart_def Let_def)

lemma new_Chart_charts:
  "charts (new_Chart k cv ty ls ds s) =
     (charts s)(k \<mapsto> \<lparr>chart_id = next_chart_id s, canvas = cv, chart_type = ty,
                        labels = ls, datasets = ds\<rparr>)"
  by (simp add: new_Chart_def Let_def)

lemma new_Chart_effects:
  "effects (new_Chart k cv ty ls ds s) =
     effects s @ [ChartNew \<lparr>chart_id = next_chart_id s, canvas = cv, chart_type = ty,
                        labels = ls, datasets = ds\<rparr>]"
  by (simp add: new_Chart_def Let_def)

lemma rerender_result:
  "effects (new_Chart k cv ty ls ds (destroy_previous k s)) =
     effects s @ (case charts s k of None \<Rightarrow> [] | Some c \<Rightarrow> [ChartDestroy (chart_id c)])
       @ [ChartNew \<lparr>chart_id = next_chart_id s, canvas = cv, chart_type = ty,
                   labels = ls, datasets = ds\<rparr>]"
  "charts (new_Chart k cv ty ls ds (destroy_previous k s)) =
     (charts s)(k \<mapsto> \<lparr>chart_id = next_chart_id s, canvas = cv, chart_type = ty,
                        labels = ls, datasets = ds\<rparr>)"
  by (simp_all add: new_Chart_effects new_Chart_charts destroy_previous_effects)

lemma render_analyticsData [simp]:
  "analyticsData (renderStarsChart s) = analyticsData s"
  "analyticsData (renderFollowersChart s) = analyticsData s"
  "analyticsData (renderReposChart s) = analyticsData s"
  "analyticsData (renderCommitsChart s) = analyticsData s"
  "analyticsData (renderContributionChart s) = analyticsData s"
  "analyticsData (outcome_page (renderLanguageChart s)) = analyticsData s"
  by (simp_all add: renderStarsChart_def renderFollowersChart_def renderReposChart_def
      renderCommitsChart_def renderContributionChart_def renderLanguageChart_def
      outcome_page_def Let_def)

lemma renderCharts_analyticsData [simp]:
  "analyticsData (outcome_page (renderCharts s)) = analyticsData s"
proof -
  define s4 where "s4 = renderCommitsChart (renderReposChart (renderFollowersChart (renderStarsChart s)))"
  have a: "analyticsData s4 = analyticsData s" by (simp add: s4_def)
  have "analyticsData (outcome_page (renderLanguageChart s4)) = analyticsData s"
    using a by simp
  then show ?thesis
    unfolding renderCharts_def s4_def [symmetric]
    by (cases "renderLanguageChart s4") (simp_all add: and_then_def outcome_page_def)
qed

lemma updateMetrics_analyticsData [simp]:
  "analyticsData (updateMetrics s) = analyticsData s"
  by (simp add: updateMetrics_def updateMetricChange_def Let_def)

lemma load_catch_analyticsData [simp]:
  "analyticsData (load_catch e s) = analyticsData s"
  by (simp add: load_catch_def showError_def)

lemma resume_success_analyticsData:
  "analyticsData (loadAnalyticsData_resume (HttpResponse True (Some snapshots)) s)
     = (case snapshots of None \<Rightarrow> [] | Some xs \<Rightarrow> xs)"
proof -
  define xs where "xs = (case snapshots of None \<Rightarrow> [] | Some xs \<Rightarrow> xs)"
  define s1 where "s1 = s\<lparr>analyticsData := xs\<rparr>"
  have a: "analyticsData (outcome_page (renderCharts (updateMetrics s1))) = xs"
    by (simp add: s1_def)
  show ?thesis
  proof (cases "xs = []")
    case True
    then show ?thesis
      by (simp add: loadAnalyticsData_resume_def xs_def showEmptyState_def)
  next
    case False
    have "loadAnalyticsData_resume (HttpResponse True (Some snapshots)) s =
        (case and_then (renderCharts (updateMetrics s1)) (\<lambda>s'. Normal (updateTable s')) of
           Normal s' \<Rightarrow> s' | Threw e s' \<Rightarrow> load_catch e s')"
      using False by (simp add: loadAnalyticsData_resume_def xs_def s1_def Let_def)
    then show ?thesis
      using a
      by (cases "renderCharts (updateMetrics s1)")
         (simp_all add: and_then_def outcome_page_def updateTable_def xs_def)
  qed
qed

subsection \<open>Metrics\<close>

lemma updateMetricChange_frame [simp]:
  "metric_value (updateMetricChange m a b s) = metric_value s"
  "metric_change (updateMetricChange m a b s) =
     (metric_change s)(''metric-'' @ m @ ''-change'' \<mapsto> change_indicator a b)"
  by (simp_all add: updateMetricChange_def)

lemma change_indicator_fields:
  "magnitude (change_indicator a b) = NumberLocaleString \<bar>b - a\<bar>"
  "symbol (change_indicator a b) =
     (if 0 < b - a then ArrowUp else if b - a < 0 then ArrowDown else ArrowRight)"
  "className (change_indicator a b) =
     (if 0 < b - a then ''metric-change positive''
      else if b - a < 0 then ''metric-change negative'' else ''metric-change neutral'')"
  "percentChange (change_indicator a b) = percent_change a b"
  by (simp_all add: change_indicator_def metric_delta_def Let_def)

lemma updateMetrics_nonempty:
  assumes "analyticsData s \<noteq> []"
  shows "metric_value (updateMetrics s) =
           (metric_value s)
             (''metric-stars'' \<mapsto> NumberLocaleString (stars (last (analyticsData s))),
              ''metric-followers'' \<mapsto> NumberLocaleString (followers (last (analyticsData s))),
              ''metric-repos'' \<mapsto> NumberLocaleString (public_repos (last (analyticsData s))),
              ''metric-commits'' \<mapsto> NumberLocaleString (total_commits (last (analyticsData s))))"
    and "metric_change (updateMetrics s) =
           (metric_change s)
             (''metric-stars-change'' \<mapsto>
                change_indicator (stars (hd (analyticsData s))) (stars (last (analyticsData s))),
              ''metric-followers-change'' \<mapsto>
                change_indicator (followers (hd (analyticsData s))) (followers (last (analyticsData s))),
              ''metric-repos-change'' \<mapsto>
                change_indicator (public_repos (hd (analyticsData s))) (public_repos (last (analyticsData s))),
              ''metric-commits-change'' \<mapsto>
                change_indicator (total_commits (hd (analyticsData s))) (total_commits (last (analyticsData s))))"
  using assms
  by (simp_all add: updateMetrics_def Let_def last_conv_nth hd_conv_nth)

text \<open>
  Claim C3. For a non-empty snapshot sequence and each tracked metric (stars, followers,
  public repositories, total commits), \<open>updateMetrics\<close> shows the metric of the last
  snapshot as the current value, and a change indicator computed from the first snapshot as
  baseline and the last one as current: its magnitude is the absolute value of last minus
  first and its arrow is the sign of last minus first. The order of the sequence is not
  used, so the statement needs no sortedness.
\<close>

theorem aggregator_first_last:
  assumes "analyticsData s \<noteq> []"
  shows "\<forall>(name, m) \<in> set [(''stars'', stars), (''followers'', followers),
                             (''repos'', public_repos), (''commits'', total_commits)].
           metric_value (updateMetrics s) (''metric-'' @ name)
             = Some (NumberLocaleString (m (last (analyticsData s)))) \<and>
           (\<exists>c. metric_change (updateMetrics s) (''metric-'' @ name @ ''-change'') = Some c \<and>
                magnitude c = NumberLocaleString \<bar>m (last (analyticsData s)) - m (hd (analyticsData s))\<bar> \<and>
                symbol c = (if 0 < m (last (analyticsData s)) - m (hd (analyticsData s)) then ArrowUp
                            else if m (last (analyticsData s)) - m (hd (analyticsData s)) < 0 then ArrowDown
                            else ArrowRight) \<and>
                percentChange c = percent_change (m (hd (analyticsData s))) (m (last (analyticsData s))))"
  by (simp add: updateMetrics_nonempty [OF assms] change_indicator_fields)

lemma percent_change_150: "percent_change 10 25 = JSString ''150.0''"
  by (simp add: percent_change_def metric_delta_def js_div_def js_mul_int_def round_binary64_def
      round_half_even_def toFixed1_def toFixed1_tenths_def fixed1_string_def digits.simps
      compute_bitlen Let_def)

text \<open>The sequence of the specification's first scenario: stars go from 10 to 25.\<close>

theorem aggregator_first_last_witness:
  "analyticsData (signed_in_page\<lparr>analyticsData := january\<rparr>) \<noteq> [] \<and>
   metric_value (updateMetrics (signed_in_page\<lparr>analyticsData := january\<rparr>)) ''metric-stars''
     = Some (NumberLocaleString 25) \<and>
   (\<exists>c. metric_change (updateMetrics (signed_in_page\<lparr>analyticsData := january\<rparr>))
          ''metric-stars-change'' = Some c \<and>
        magnitude c = NumberLocaleString 15 \<and> symbol c = ArrowUp \<and>
        percentChange c = JSString ''150.0'')"
  using aggregator_first_last [of "signed_in_page\<lparr>analyticsData := january\<rparr>"]
  by (simp add: january_def percent_change_150)

lemma percent_change_finite:
  assumes "0 < b"
  shows "\<exists>m e. js_mul_int (js_div (c - b) b) 100 = Finite m e \<and>
           percent_change b c = JSString (fixed1_string (m < 0) (toFixed1_tenths m e)) \<and>
           \<bar>number_value (Finite m e) - of_int (c - b) / of_int b * 100\<bar>
             \<le> \<bar>of_int (c - b) / of_int b * 100\<bar> / 2 ^ 51"
proof -
  define E where "E = (of_int (c - b) / of_int b :: rat)"
  define u where "u = (1 / 2 ^ 53 :: rat)"
  from assms have "b \<noteq> 0" by simp
  from js_div_finite [OF this, of "c - b"]
  obtain m1 e1 where d: "js_div (c - b) b = Finite m1 e1"
    and d_err: "\<bar>number_value (Finite m1 e1) - E\<bar> \<le> \<bar>E\<bar> * u"
    by (auto simp: E_def u_def)
  from js_mul_int_finite [of m1 e1 100]
  obtain m e where p: "js_mul_int (Finite m1 e1) 100 = Finite m e"
    and p_err: "\<bar>number_value (Finite m e) - number_value (Finite m1 e1) * 100\<bar>
                 \<le> \<bar>number_value (Finite m1 e1) * 100\<bar> * u"
    by (auto simp: u_def)
  define v1 where "v1 = number_value (Finite m1 e1)"
  define v2 where "v2 = number_value (Finite m e)"
  have a: "\<bar>v1 - E\<bar> \<le> \<bar>E\<bar> * u" using d_err by (simp add: v1_def)
  have b': "\<bar>v2 - v1 * 100\<bar> \<le> \<bar>v1\<bar> * 100 * u" using p_err by (simp add: v1_def v2_def abs_mult)
  have u: "0 \<le> u" "u \<le> 1" by (simp_all add: u_def)
  have "\<bar>v1\<bar> \<le> \<bar>E\<bar> + \<bar>E\<bar> * u" using a by linarith
  also have "\<dots> \<le> \<bar>E\<bar> + \<bar>E\<bar> * 1" using u by (intro add_left_mono mult_left_mono) simp_all
  finally have v1: "\<bar>v1\<bar> \<le> 2 * \<bar>E\<bar>" by simp
  then have "\<bar>v1\<bar> * (100 * u) \<le> (2 * \<bar>E\<bar>) * (100 * u)"
    using u by (intro mult_right_mono) simp_all
  with b' have c: "\<bar>v2 - v1 * 100\<bar> \<le> 200 * \<bar>E\<bar> * u" by (simp add: algebra_simps)
  have "v1 * 100 - E * 100 = (v1 - E) * 100" by (simp add: algebra_simps)
  then have "\<bar>v1 * 100 - E * 100\<bar> = \<bar>v1 - E\<bar> * 100" by (simp only: abs_mult abs_numeral)
  with a have d': "\<bar>v1 * 100 - E * 100\<bar> \<le> 100 * \<bar>E\<bar> * u" by simp
  have "\<bar>v2 - E * 100\<bar> \<le> \<bar>v2 - v1 * 100\<bar> + \<bar>v1 * 100 - E * 100\<bar>" by linarith
  also have "\<dots> \<le> 300 * \<bar>E\<bar> * u" using c d' by linarith
  also have "\<dots> \<le> \<bar>E * 100\<bar> / 2 ^ 51" by (simp add: u_def abs_mult)
  finally have err: "\<bar>v2 - E * 100\<bar> \<le> \<bar>E * 100\<bar> / 2 ^ 51" .
  have "percent_change b c = JSString (fixed1_string (m < 0) (toFixed1_tenths m e))"
    using assms d p by (simp add: percent_change_def metric_delta_def toFixed1_def)
  with d p err show ?thesis by (auto simp: v2_def E_def)
qed

text \<open>
  Claim C2, as the code has it. With a baseline above zero the percent change is the string
  that \<open>toFixed(1)\<close> makes of the binary64 value of \<open>(change / oldValue) * 100\<close>: a finite
  number (never \<open>NaN\<close> or an infinity), printed with one fraction digit, which lies within
  \<open>1 / 20\<close> of the exact quotient times one hundred, up to the rounding of the two
  floating-point operations. With a baseline of zero (or below) it is the number \<open>0\<close>,
  whatever the current value.
\<close>

theorem percent_change_rounded:
  "(0 < b \<longrightarrow>
      (\<exists>m e. js_mul_int (js_div (c - b) b) 100 = Finite m e \<and>
         percentChange (change_indicator b c)
           = JSString (fixed1_string (m < 0) (toFixed1_tenths m e)) \<and>
         \<bar>(if m < 0 then - 1 else 1) * (of_nat (toFixed1_tenths m e) / 10)
            - of_int (c - b) / of_int b * 100\<bar>
           \<le> 1 / 20 + \<bar>of_int (c - b) / of_int b * 100 :: rat\<bar> / 2 ^ 51)) \<and>
   (b \<le> 0 \<longrightarrow> percentChange (change_indicator b c) = JSNumber 0)"
proof (intro conjI impI)
  assume "b \<le> 0"
  then show "percentChange (change_indicator b c) = JSNumber 0"
    by (simp add: change_indicator_fields percent_change_def)
next
  assume pos: "0 < b"
  define E where "E = (of_int (c - b) / of_int b * 100 :: rat)"
  from percent_change_finite [OF pos, of c]
  obtain m e where p: "js_mul_int (js_div (c - b) b) 100 = Finite m e"
    and s: "percent_change b c = JSString (fixed1_string (m < 0) (toFixed1_tenths m e))"
    and err: "\<bar>number_value (Finite m e) - E\<bar> \<le> \<bar>E\<bar> / 2 ^ 51"
    by (auto simp: E_def)
  define v where "v = number_value (Finite m e)"
  define t where "t = (of_nat (toFixed1_tenths m e) :: rat)"
  have near: "\<bar>t - 10 * \<bar>v\<bar>\<bar> \<le> 1 / 2"
    unfolding t_def v_def by (rule toFixed1_tenths_nearest)
  have sign: "(m < 0 \<longrightarrow> v < 0) \<and> (\<not> m < 0 \<longrightarrow> 0 \<le> v)"
    by (auto simp: v_def number_value_def mult_neg_pos)
  have "\<bar>(if m < 0 then - 1 else 1) * (t / 10) - v\<bar> \<le> 1 / 20"
    using near sign by (auto simp: abs_if split: if_splits)
  moreover have "\<bar>v - E\<bar> \<le> \<bar>E\<bar> / 2 ^ 51" using err by (simp add: v_def)
  ultimately have "\<bar>(if m < 0 then - 1 else 1) * (t / 10) - E\<bar> \<le> 1 / 20 + \<bar>E\<bar> / 2 ^ 51"
    by linarith
  with p s show "\<exists>m e. js_mul_int (js_div (c - b) b) 100 = Finite m e \<and>
         percentChange (change_indicator b c)
           = JSString (fixed1_string (m < 0) (toFixed1_tenths m e)) \<and>
         \<bar>(if m < 0 then - 1 else 1) * (of_nat (toFixed1_tenths m e) / 10)
            - of_int (c - b) / of_int b * 100\<bar>
           \<le> 1 / 20 + \<bar>of_int (c - b) / of_int b * 100 :: rat\<bar> / 2 ^ 51"
    unfolding t_def E_def by (auto simp: change_indicator_fields)
qed

text \<open>From 3 to 4 the indicator shows \<open>33.3\<close>; from 0 to 5 it shows \<open>0\<close>.\<close>

theorem percent_change_rounded_witness:
  "(0::int) < 3 \<and>
   (\<exists>m e. js_mul_int (js_div (4 - 3) 3) 100 = Finite m e \<and>
      percentChange (change_indicator 3 4)
        = JSString (fixed1_string (m < 0) (toFixed1_tenths m e)) \<and>
      \<bar>(if m < 0 then - 1 else 1) * (of_nat (toFixed1_tenths m e) / 10)
         - of_int (4 - 3) / of_int 3 * 100\<bar>
        \<le> 1 / 20 + \<bar>of_int (4 - 3) / of_int 3 * 100 :: rat\<bar> / 2 ^ 51) \<and>
   (0::int) \<le> 0 \<and> percentChange (change_indicator 0 5) = JSNumber 0"
proof -
  have h1: "(0::int) < 3" by simp
  have h2: "(0::int) \<le> 0" by simp
  from percent_change_rounded [of 3 4] h1
  have a: "\<exists>m e. js_mul_int (js_div (4 - 3) 3) 100 = Finite m e \<and>
      percentChange (change_indicator 3 4)
        = JSString (fixed1_string (m < 0) (toFixed1_tenths m e)) \<and>
      \<bar>(if m < 0 then - 1 else 1) * (of_nat (toFixed1_tenths m e) / 10)
         - of_int (4 - 3) / of_int 3 * 100\<bar>
        \<le> 1 / 20 + \<bar>of_int (4 - 3) / of_int 3 * 100 :: rat\<bar> / 2 ^ 51"
    by blast
  from percent_change_rounded [of 0 5] h2
  have b: "percentChange (change_indicator 0 5) = JSNumber 0" by blast
  from h1 a h2 b show ?thesis by blast
qed

text \<open>
  Claim C2 as stated fails: from a baseline of 3 to a current value of 4 the exact percent
  change is a third of one hundred, and the code yields the string \<open>33.3\<close>.
\<close>

theorem percent_change_is_exact_counterexample:
  "percentChange (change_indicator 3 4) = JSString ''33.3'' \<and>
   (333 / 10 :: rat) \<noteq> of_int (4 - 3) / of_int 3 * 100"
  by (simp add: change_indicator_def percent_change_def metric_delta_def js_div_def js_mul_int_def
      round_binary64_def round_half_even_def toFixed1_def toFixed1_tenths_def fixed1_string_def
      digits.simps compute_bitlen Let_def)

subsection \<open>Charts\<close>

text \<open>
  Claim C5. The chart that \<open>renderFollowersChart\<close> builds has one label sequence and two
  value sequences, Followers and Following, all as long as the snapshot sequence, and at
  every index the label, the followers value and the following value are those of the
  snapshot at that index.
\<close>

theorem followers_series_aligned:
  "\<exists>c f g. charts (renderFollowersChart s) ''followers'' = Some c \<and>
     datasets c = [f, g] \<and>
     ds_label f = Some ''Followers'' \<and> ds_label g = Some ''Following'' \<and>
     length (labels c) = length (analyticsData s) \<and>
     length (ds_data f) = length (analyticsData s) \<and>
     length (ds_data g) = length (analyticsData s) \<and>
     (\<forall>i < length (analyticsData s).
        labels c ! i = DateLocaleString (snapshot_date (analyticsData s ! i)) \<and>
        ds_data f ! i = followers (analyticsData s ! i) \<and>
        ds_data g ! i = following (analyticsData s ! i))"
  by (simp add: renderFollowersChart_def new_Chart_charts typed_dataset_def date_labels_def Let_def)

text \<open>At index 1 of the January sequence: the label of 31 January, 7 followers, 4 following.\<close>

theorem followers_series_aligned_witness:
  "(1::nat) < length (analyticsData (signed_in_page\<lparr>analyticsData := january\<rparr>)) \<and>
   (\<exists>c f g. charts (renderFollowersChart (signed_in_page\<lparr>analyticsData := january\<rparr>)) ''followers''
        = Some c \<and>
      datasets c = [f, g] \<and>
      labels c ! 1 = DateLocaleString ''2024-01-31'' \<and>
      ds_data f ! 1 = 7 \<and> ds_data g ! 1 = 4)"
proof -
  have n: "(1::nat) < length (analyticsData (signed_in_page\<lparr>analyticsData := january\<rparr>))"
    by (simp add: january_def)
  from followers_series_aligned [of "signed_in_page\<lparr>analyticsData := january\<rparr>"]
  obtain c f g where
    c: "charts (renderFollowersChart (signed_in_page\<lparr>analyticsData := january\<rparr>)) ''followers'' = Some c"
    and d: "datasets c = [f, g]"
    and a: "\<forall>i < length (analyticsData (signed_in_page\<lparr>analyticsData := january\<rparr>)).
        labels c ! i = DateLocaleString (snapshot_date (analyticsData (signed_in_page\<lparr>analyticsData := january\<rparr>) ! i)) \<and>
        ds_data f ! i = followers (analyticsData (signed_in_page\<lparr>analyticsData := january\<rparr>) ! i) \<and>
        ds_data g ! i = following (analyticsData (signed_in_page\<lparr>analyticsData := january\<rparr>) ! i)"
    by blast
  from a n have "labels c ! 1 = DateLocaleString ''2024-01-31'' \<and> ds_data f ! 1 = 7 \<and> ds_data g ! 1 = 4"
    by (simp add: january_def)
  with n c d show ?thesis by blast
qed

text \<open>
  The language chart reads the last snapshot only. While its canvas is on the page, an
  absent or empty \<open>language_stats\<close> gives the panel without a chart, and a non-empty one
  gives one label and one value per key, in key order.
\<close>

lemma language_card_kept [simp]:
  "language_card (updateMetrics s) = language_card s"
  "language_card (renderStarsChart s) = language_card s"
  "language_card (renderFollowersChart s) = language_card s"
  "language_card (renderReposChart s) = language_card s"
  "language_card (renderCommitsChart s) = language_card s"
  by (simp_all add: updateMetrics_def updateMetricChange_def renderStarsChart_def
      renderFollowersChart_def renderReposChart_def renderCommitsChart_def Let_def)

lemma renderLanguageChart_canvas_gone:
  "language_card s \<noteq> LanguageCanvas \<Longrightarrow>
   renderLanguageChart s
     = Threw (TypeError ''Cannot read properties of null (reading getContext)'') s"
  by (simp add: renderLanguageChart_def)

lemma renderLanguageChart_empty_mapping:
  assumes "language_card s = LanguageCanvas" and "analyticsData s \<noteq> []"
    and "language_stats (last (analyticsData s)) = None \<or>
         language_stats (last (analyticsData s)) = Some []"
  shows "renderLanguageChart s
     = Normal ((destroy_previous ''language'' s)\<lparr>language_card := NoLanguageData\<rparr>)"
  using assms by (auto simp: renderLanguageChart_def Let_def last_conv_nth)

lemma renderLanguageChart_last_snapshot:
  assumes "language_card s = LanguageCanvas" and "analyticsData s \<noteq> []"
    and "language_stats (last (analyticsData s)) = Some m" and "m \<noteq> []"
  shows "renderLanguageChart s
     = Normal (new_Chart ''language'' ''language-chart'' ''doughnut'' (map (Plain \<circ> fst) m)
         [\<lparr>ds_label = None, ds_data = map snd m, backgroundColor = Palette COLORS_gradient,
           borderColor = ''#fff'', borderWidth = 2, fill = None\<rparr>]
         (destroy_previous ''language'' s))"
  using assms by (simp add: renderLanguageChart_def Let_def last_conv_nth)

lemma resume_canvas_gone:
  assumes "language_card s \<noteq> LanguageCanvas" and "xs \<noteq> []"
  shows "loadAnalyticsData_resume (HttpResponse True (Some (Some xs))) s
     = load_catch (TypeError ''Cannot read properties of null (reading getContext)'')
         (renderCommitsChart (renderReposChart (renderFollowersChart
         (renderStarsChart (updateMetrics (s\<lparr>analyticsData := xs\<rparr>))))))"
proof -
  define s4 where "s4 = renderCommitsChart (renderReposChart (renderFollowersChart
         (renderStarsChart (updateMetrics (s\<lparr>analyticsData := xs\<rparr>)))))"
  have "language_card s4 \<noteq> LanguageCanvas" using assms(1) by (simp add: s4_def)
  then have "renderCharts (updateMetrics (s\<lparr>analyticsData := xs\<rparr>))
      = Threw (TypeError ''Cannot read properties of null (reading getContext)'') s4"
    unfolding renderCharts_def s4_def [symmetric]
    by (simp add: renderLanguageChart_canvas_gone and_then_def)
  then show ?thesis
    using assms(2) by (simp add: loadAnalyticsData_resume_def and_then_def s4_def)
qed

lemma first_load_card:
  "language_card (loadAnalyticsData_resume (HttpResponse True (Some (Some january))) signed_in_page)
     = NoLanguageData \<and>
   Alert ''Failed to load analytics data. Please try again.''
     \<notin> set (effects (loadAnalyticsData_resume (HttpResponse True (Some (Some january))) signed_in_page))"
  by (simp add: loadAnalyticsData_resume_def renderCharts_def renderLanguageChart_def
      and_then_def updateTable_def renderContributionChart_def renderCommitsChart_def
      renderReposChart_def renderFollowersChart_def renderStarsChart_def new_Chart_def
      destroy_previous_def updateMetrics_def updateMetricChange_def january_def
      signed_in_page_def Let_def)

text \<open>
  Claim C4, at an input where the code departs from it. A first load of the January
  sequence, whose last snapshot has no \<open>language_stats\<close>, shows the panel without a chart
  and no error. That panel has replaced the canvas, so on the next load of the same
  sequence \<open>renderLanguageChart\<close> throws at its first line, before it looks at the mapping,
  and the load ends in the general error message.
\<close>

theorem language_empty_state_breaks_next_load:
  "language_card (loadAnalyticsData_resume (HttpResponse True (Some (Some january))) signed_in_page)
     = NoLanguageData \<and>
   Alert ''Failed to load analytics data. Please try again.''
     \<notin> set (effects (loadAnalyticsData_resume (HttpResponse True (Some (Some january))) signed_in_page)) \<and>
   language_stats (last january) = None \<and>
   renderLanguageChart
       (loadAnalyticsData_resume (HttpResponse True (Some (Some january))) signed_in_page)
     = Threw (TypeError ''Cannot read properties of null (reading getContext)'')
         (loadAnalyticsData_resume (HttpResponse True (Some (Some january))) signed_in_page) \<and>
   last (effects (loadAnalyticsData_resume (HttpResponse True (Some (Some january)))
           (loadAnalyticsData_resume (HttpResponse True (Some (Some january))) signed_in_page)))
     = Alert ''Failed to load analytics data. Please try again.''"
proof -
  define s1 where "s1 = loadAnalyticsData_resume (HttpResponse True (Some (Some january))) signed_in_page"
  have c: "language_card s1 = NoLanguageData"
    and a: "Alert ''Failed to load analytics data. Please try again.'' \<notin> set (effects s1)"
    using first_load_card by (simp_all add: s1_def)
  have t: "renderLanguageChart s1
     = Threw (TypeError ''Cannot read properties of null (reading getContext)'') s1"
    using c by (simp add: renderLanguageChart_canvas_gone)
  have j: "january \<noteq> []" by (simp add: january_def)
  have "last (effects (loadAnalyticsData_resume (HttpResponse True (Some (Some january))) s1))
     = Alert ''Failed to load analytics data. Please try again.''"
    using c by (simp add: resume_canvas_gone [OF _ j] load_catch_def showError_def)
  moreover have "language_stats (last january) = None" by (simp add: january_def)
  ultimately show ?thesis using c a t unfolding s1_def by simp
qed

lemma render_trace:
  "\<exists>c'. effects (renderStarsChart s) =
            effects s @ (case charts s ''stars'' of None \<Rightarrow> []
                         | Some c \<Rightarrow> [ChartDestroy (chart_id c)]) @ [ChartNew c'] \<and>
          charts (renderStarsChart s) = (charts s)(''stars'' \<mapsto> c')"
  "\<exists>c'. effects (renderFollowersChart s) =
            effects s @ (case charts s ''followers'' of None \<Rightarrow> []
                         | Some c \<Rightarrow> [ChartDestroy (chart_id c)]) @ [ChartNew c'] \<and>
          charts (renderFollowersChart s) = (charts s)(''followers'' \<mapsto> c')"
  "\<exists>c'. effects (renderReposChart s) =
            effects s @ (case charts s ''repos'' of None \<Rightarrow> []
                         | Some c \<Rightarrow> [ChartDestroy (chart_id c)]) @ [ChartNew c'] \<and>
          charts (renderReposChart s) = (charts s)(''repos'' \<mapsto> c')"
  "\<exists>c'. effects (renderCommitsChart s) =
            effects s @ (case charts s ''commits'' of None \<Rightarrow> []
                         | Some c \<Rightarrow> [ChartDestroy (chart_id c)]) @ [ChartNew c'] \<and>
          charts (renderCommitsChart s) = (charts s)(''commits'' \<mapsto> c')"
  "\<exists>c'. effects (renderContributionChart s) =
            effects s @ (case charts s ''contribution'' of None \<Rightarrow> []
                         | Some c \<Rightarrow> [ChartDestroy (chart_id c)]) @ [ChartNew c'] \<and>
          charts (renderContributionChart s) = (charts s)(''contribution'' \<mapsto> c')"
  unfolding renderStarsChart_def renderFollowersChart_def renderReposChart_def
    renderCommitsChart_def renderContributionChart_def Let_def rerender_result
    destroy_previous_frame
  by (rule exI, rule conjI, rule refl, rule refl)+

lemma language_render_cases:
  "(if language_card s \<noteq> LanguageCanvas
    then renderLanguageChart s
           = Threw (TypeError ''Cannot read properties of null (reading getContext)'') s
    else if analyticsData s = []
    then \<exists>s'. renderLanguageChart s
             = Threw (TypeError ''Cannot read properties of undefined (reading language_stats)'') s' \<and>
           effects s' = effects s @ (case charts s ''language'' of None \<Rightarrow> []
                                      | Some c \<Rightarrow> [ChartDestroy (chart_id c)]) \<and>
           charts s' = charts s
    else if (case language_stats (last (analyticsData s)) of None \<Rightarrow> [] | Some m \<Rightarrow> m) = []
    then \<exists>s'. renderLanguageChart s = Normal s' \<and>
           effects s' = effects s @ (case charts s ''language'' of None \<Rightarrow> []
                                      | Some c \<Rightarrow> [ChartDestroy (chart_id c)]) \<and>
           charts s' = charts s \<and> language_card s' = NoLanguageData
    else \<exists>s' c'. renderLanguageChart s = Normal s' \<and>
           effects s' = effects s @ (case charts s ''language'' of None \<Rightarrow> []
                                      | Some c \<Rightarrow> [ChartDestroy (chart_id c)]) @ [ChartNew c'] \<and>
           charts s' = (charts s)(''language'' \<mapsto> c') \<and>
           chart_type c' = ''doughnut'' \<and>
           labels c' = map (Plain \<circ> fst)
             (case language_stats (last (analyticsData s)) of None \<Rightarrow> [] | Some m \<Rightarrow> m) \<and>
           map ds_data (datasets c') = [map snd
             (case language_stats (last (analyticsData s)) of None \<Rightarrow> [] | Some m \<Rightarrow> m)])"
proof (cases "language_card s \<noteq> LanguageCanvas")
  case True
  then show ?thesis by (simp add: renderLanguageChart_canvas_gone)
next
  case canvas: False
  show ?thesis
  proof (cases "analyticsData s = []")
    case True
    with canvas show ?thesis
      by (simp add: renderLanguageChart_def destroy_previous_effects)
  next
    case data: False
    define m where "m = (case language_stats (last (analyticsData s)) of None \<Rightarrow> [] | Some m \<Rightarrow> m)"
    show ?thesis
    proof (cases "m = []")
      case True
      then have "language_stats (last (analyticsData s)) = None \<or>
                 language_stats (last (analyticsData s)) = Some []"
        by (auto simp: m_def split: option.splits)
      with canvas data have "renderLanguageChart s
          = Normal ((destroy_previous ''language'' s)\<lparr>language_card := NoLanguageData\<rparr>)"
        by (simp add: renderLanguageChart_empty_mapping)
      with canvas data True show ?thesis
        by (simp add: m_def [symmetric] destroy_previous_effects)
    next
      case ne: False
      then have "language_stats (last (analyticsData s)) = Some m"
        by (auto simp: m_def split: option.splits)
      with canvas data ne have r: "renderLanguageChart s
          = Normal (new_Chart ''language'' ''language-chart'' ''doughnut'' (map (Plain \<circ> fst) m)
              [\<lparr>ds_label = None, ds_data = map snd m, backgroundColor = Palette COLORS_gradient,
                borderColor = ''#fff'', borderWidth = 2, fill = None\<rparr>]
              (destroy_previous ''language'' s))"
        by (simp add: renderLanguageChart_last_snapshot)
      have "\<exists>s' c'. renderLanguageChart s = Normal s' \<and>
           effects s' = effects s @ (case charts s ''language'' of None \<Rightarrow> []
                                      | Some c \<Rightarrow> [ChartDestroy (chart_id c)]) @ [ChartNew c'] \<and>
           charts s' = (charts s)(''language'' \<mapsto> c') \<and>
           chart_type c' = ''doughnut'' \<and>
           labels c' = map (Plain \<circ> fst) m \<and>
           map ds_data (datasets c') = [map snd m]"
        unfolding r
        by (rule exI, rule exI, rule conjI, rule refl, unfold rerender_result,
            rule conjI, rule refl, rule conjI, rule refl) simp
      with canvas data ne show ?thesis by (simp add: m_def [symmetric])
    qed
  qed
qed

lemma type_change_stars:
  "\<exists>c'. charts (updateChartType ''stars'' t (s\<lparr>stars_chart_type := t\<rparr>))
           = (charts s)(''stars'' \<mapsto> c') \<and>
        effects (updateChartType ''stars'' t (s\<lparr>stars_chart_type := t\<rparr>))
           = effects s @ (case charts s ''stars'' of None \<Rightarrow> []
                          | Some c \<Rightarrow> [ChartDestroy (chart_id c)]) @ [ChartNew c'] \<and>
        chart_type c' = t \<and> labels c' = date_labels (analyticsData s) \<and>
        map ds_data (datasets c') = [map stars (analyticsData s)]"
proof -
  have st: "updateChartType ''stars'' t (s\<lparr>stars_chart_type := t\<rparr>)
      = new_Chart ''stars'' ''stars-chart'' t (date_labels (analyticsData s))
          [typed_dataset t ''Total Stars'' COLORS_primary (map stars (analyticsData s))]
          (destroy_previous ''stars'' (s\<lparr>stars_chart_type := t\<rparr>))"
    by (simp add: updateChartType_def renderStarsChart_def Let_def)
  have fr: "charts (s\<lparr>stars_chart_type := t\<rparr>) = charts s"
    "effects (s\<lparr>stars_chart_type := t\<rparr>) = effects s"
    "next_chart_id (s\<lparr>stars_chart_type := t\<rparr>) = next_chart_id s"
    by simp_all
  show ?thesis
    unfolding st rerender_result fr
    by (rule exI, rule conjI, rule refl, rule conjI, rule refl) (simp add: typed_dataset_def)
qed

lemma type_change_followers:
  "\<exists>c'. charts (updateChartType ''followers'' t (s\<lparr>followers_chart_type := t\<rparr>))
           = (charts s)(''followers'' \<mapsto> c') \<and>
        effects (updateChartType ''followers'' t (s\<lparr>followers_chart_type := t\<rparr>))
           = effects s @ (case charts s ''followers'' of None \<Rightarrow> []
                          | Some c \<Rightarrow> [ChartDestroy (chart_id c)]) @ [ChartNew c'] \<and>
        chart_type c' = t \<and> labels c' = date_labels (analyticsData s) \<and>
        map ds_data (datasets c')
          = [map followers (analyticsData s), map following (analyticsData s)]"
proof -
  have st: "updateChartType ''followers'' t (s\<lparr>followers_chart_type := t\<rparr>)
      = new_Chart ''followers'' ''followers-chart'' t (date_labels (analyticsData s))
          [typed_dataset t ''Followers'' COLORS_success (map followers (analyticsData s)),
           typed_dataset t ''Following'' COLORS_info (map following (analyticsData s))]
          (destroy_previous ''followers'' (s\<lparr>followers_chart_type := t\<rparr>))"
    by (simp add: updateChartType_def renderFollowersChart_def Let_def)
  have fr: "charts (s\<lparr>followers_chart_type := t\<rparr>) = charts s"
    "effects (s\<lparr>followers_chart_type := t\<rparr>) = effects s"
    "next_chart_id (s\<lparr>followers_chart_type := t\<rparr>) = next_chart_id s"
    by simp_all
  show ?thesis
    unfolding st rerender_result fr
    by (rule exI, rule conjI, rule refl, rule conjI, rule refl) (simp add: typed_dataset_def)
qed

lemma type_change_analyticsData:
  "analyticsData (updateChartType ''stars'' t (s\<lparr>stars_chart_type := t\<rparr>)) = analyticsData s"
  "analyticsData (updateChartType ''followers'' t (s\<lparr>followers_chart_type := t\<rparr>)) = analyticsData s"
  by (simp_all add: updateChartType_def)

lemma updateMetrics_frame:
  "charts (updateMetrics s) = charts s"
  "next_chart_id (updateMetrics s) = next_chart_id s"
  "stars_chart_type (updateMetrics s) = stars_chart_type s"
  "followers_chart_type (updateMetrics s) = followers_chart_type s"
  by (simp_all add: updateMetrics_def updateMetricChange_def Let_def)

lemma renderStarsChart_entry:
  "charts (renderStarsChart s) =
     (charts s)(''stars'' \<mapsto> \<lparr>chart_id = next_chart_id s, canvas = ''stars-chart'',
        chart_type = stars_chart_type s, labels = date_labels (analyticsData s),
        datasets = [typed_dataset (stars_chart_type s) ''Total Stars'' COLORS_primary
                      (map stars (analyticsData s))]\<rparr>)"
  "next_chart_id (renderStarsChart s) = Suc (next_chart_id s)"
  "followers_chart_type (renderStarsChart s) = followers_chart_type s"
  by (simp_all add: renderStarsChart_def Let_def rerender_result new_Chart_def
      destroy_previous_def split: option.splits)

lemma renderFollowersChart_entry:
  "charts (renderFollowersChart s) =
     (charts s)(''followers'' \<mapsto> \<lparr>chart_id = next_chart_id s, canvas = ''followers-chart'',
        chart_type = followers_chart_type s, labels = date_labels (analyticsData s),
        datasets = [typed_dataset (followers_chart_type s) ''Followers'' COLORS_success
                      (map followers (analyticsData s)),
                    typed_dataset (followers_chart_type s) ''Following'' COLORS_info
                      (map following (analyticsData s))]\<rparr>)"
  by (simp add: renderFollowersChart_def Let_def rerender_result)

lemma registry_other_views:
  "k \<noteq> ''repos'' \<Longrightarrow> charts (renderReposChart s) k = charts s k"
  "k \<noteq> ''commits'' \<Longrightarrow> charts (renderCommitsChart s) k = charts s k"
  "k \<noteq> ''contribution'' \<Longrightarrow> charts (renderContributionChart s) k = charts s k"
  "k \<noteq> ''language'' \<Longrightarrow> charts (outcome_page (renderLanguageChart s)) k = charts s k"
  "charts (updateTable s) = charts s"
  "charts (load_catch e s) = charts s"
  by (simp_all add: renderReposChart_def renderCommitsChart_def renderContributionChart_def
      renderLanguageChart_def outcome_page_def updateTable_def load_catch_def showError_def
      Let_def new_Chart_charts)

lemma resume_nonempty_registry:
  assumes "xs \<noteq> []" and "k = ''stars'' \<or> k = ''followers''"
  shows "charts (loadAnalyticsData_resume (HttpResponse True (Some (Some xs))) s) k
     = charts (renderFollowersChart (renderStarsChart (updateMetrics (s\<lparr>analyticsData := xs\<rparr>)))) k"
proof -
  define d where "d = renderCommitsChart (renderReposChart (renderFollowersChart
      (renderStarsChart (updateMetrics (s\<lparr>analyticsData := xs\<rparr>)))))"
  have k: "k \<noteq> ''repos''" "k \<noteq> ''commits''" "k \<noteq> ''contribution''" "k \<noteq> ''language''"
    using assms(2) by auto
  have r: "loadAnalyticsData_resume (HttpResponse True (Some (Some xs))) s =
        (case and_then (renderLanguageChart d) (\<lambda>s'. Normal (renderContributionChart s')) of
           Normal s' \<Rightarrow> updateTable s' | Threw e s' \<Rightarrow> load_catch e s')"
    using assms(1)
    by (cases "renderLanguageChart d")
       (simp_all add: loadAnalyticsData_resume_def renderCharts_def and_then_def d_def)
  have "charts (loadAnalyticsData_resume (HttpResponse True (Some (Some xs))) s) k
      = charts (outcome_page (renderLanguageChart d)) k"
    unfolding r
    by (cases "renderLanguageChart d")
       (simp_all add: and_then_def outcome_page_def registry_other_views k)
  also have "\<dots> = charts d k" by (simp add: registry_other_views k)
  also have "\<dots> = charts (renderFollowersChart (renderStarsChart
      (updateMetrics (s\<lparr>analyticsData := xs\<rparr>)))) k"
    by (simp add: d_def registry_other_views k)
  finally show ?thesis .
qed

lemma loaded_stars_entry:
  assumes "xs \<noteq> []"
  shows "charts (loadAnalyticsData_resume (HttpResponse True (Some (Some xs))) s) ''stars''
     = Some \<lparr>chart_id = next_chart_id s, canvas = ''stars-chart'',
        chart_type = stars_chart_type s, labels = date_labels xs,
        datasets = [typed_dataset (stars_chart_type s) ''Total Stars'' COLORS_primary
                      (map stars xs)]\<rparr>"
  by (simp add: resume_nonempty_registry [OF assms] renderFollowersChart_entry
      renderStarsChart_entry updateMetrics_frame)

lemma loaded_followers_entry:
  assumes "xs \<noteq> []"
  shows "charts (loadAnalyticsData_resume (HttpResponse True (Some (Some xs))) s) ''followers''
     = Some \<lparr>chart_id = Suc (next_chart_id s), canvas = ''followers-chart'',
        chart_type = followers_chart_type s, labels = date_labels xs,
        datasets = [typed_dataset (followers_chart_type s) ''Followers'' COLORS_success
                      (map followers xs),
                    typed_dataset (followers_chart_type s) ''Following'' COLORS_info
                      (map following xs)]\<rparr>"
  by (simp add: resume_nonempty_registry [OF assms] renderFollowersChart_entry
      renderStarsChart_entry updateMetrics_frame)

lemma resume_empty:
  "loadAnalyticsData_resume (HttpResponse True (Some (Some []))) s
     = s\<lparr>analyticsData := [], metrics_grid := NoAnalyticsData\<rparr>"
  by (simp add: loadAnalyticsData_resume_def showEmptyState_def)

lemma type_change_in_sync:
  "\<forall>c. charts s ''stars'' = Some c \<and> labels c = date_labels (analyticsData s) \<and>
        map ds_data (datasets c) = [map stars (analyticsData s)] \<longrightarrow>
      (\<exists>c'. charts (updateChartType ''stars'' t (s\<lparr>stars_chart_type := t\<rparr>)) ''stars'' = Some c' \<and>
            chart_type c' = t \<and> labels c' = labels c \<and>
            map ds_data (datasets c') = map ds_data (datasets c))"
  "\<forall>c. charts s ''followers'' = Some c \<and> labels c = date_labels (analyticsData s) \<and>
        map ds_data (datasets c)
          = [map followers (analyticsData s), map following (analyticsData s)] \<longrightarrow>
      (\<exists>c'. charts (updateChartType ''followers'' t (s\<lparr>followers_chart_type := t\<rparr>)) ''followers''
              = Some c' \<and>
            chart_type c' = t \<and> labels c' = labels c \<and>
            map ds_data (datasets c') = map ds_data (datasets c))"
proof -
  from type_change_stars [of t s] obtain c1 where
    "effects (updateChartType ''stars'' t (s\<lparr>stars_chart_type := t\<rparr>))
           = effects s @ (case charts s ''stars'' of None \<Rightarrow> []
                          | Some c \<Rightarrow> [ChartDestroy (chart_id c)]) @ [ChartNew c1]"
    "charts (updateChartType ''stars'' t (s\<lparr>stars_chart_type := t\<rparr>)) = (charts s)(''stars'' \<mapsto> c1)"
    "chart_type c1 = t" "labels c1 = date_labels (analyticsData s)"
    "map ds_data (datasets c1) = [map stars (analyticsData s)]"
    by (elim exE conjE)
  then show "\<forall>c. charts s ''stars'' = Some c \<and> labels c = date_labels (analyticsData s) \<and>
        map ds_data (datasets c) = [map stars (analyticsData s)] \<longrightarrow>
      (\<exists>c'. charts (updateChartType ''stars'' t (s\<lparr>stars_chart_type := t\<rparr>)) ''stars'' = Some c' \<and>
            chart_type c' = t \<and> labels c' = labels c \<and>
            map ds_data (datasets c') = map ds_data (datasets c))"
    by simp
  from type_change_followers [of t s] obtain c2 where
    "effects (updateChartType ''followers'' t (s\<lparr>followers_chart_type := t\<rparr>))
           = effects s @ (case charts s ''followers'' of None \<Rightarrow> []
                          | Some c \<Rightarrow> [ChartDestroy (chart_id c)]) @ [ChartNew c2]"
    "charts (updateChartType ''followers'' t (s\<lparr>followers_chart_type := t\<rparr>))
       = (charts s)(''followers'' \<mapsto> c2)"
    "chart_type c2 = t" "labels c2 = date_labels (analyticsData s)"
    "map ds_data (datasets c2) = [map followers (analyticsData s), map following (analyticsData s)]"
    by (elim exE conjE)
  then show "\<forall>c. charts s ''followers'' = Some c \<and> labels c = date_labels (analyticsData s) \<and>
        map ds_data (datasets c)
          = [map followers (analyticsData s), map following (analyticsData s)] \<longrightarrow>
      (\<exists>c'. charts (updateChartType ''followers'' t (s\<lparr>followers_chart_type := t\<rparr>)) ''followers''
              = Some c' \<and>
            chart_type c' = t \<and> labels c' = labels c \<and>
            map ds_data (datasets c') = map ds_data (datasets c))"
    by simp
qed

lemma type_change_after_load:
  "xs \<noteq> [] \<longrightarrow>
     (\<exists>c c'. charts (loadAnalyticsData_resume (HttpResponse True (Some (Some xs))) s) ''stars''
               = Some c \<and>
        charts (updateChartType ''stars'' t
                 ((loadAnalyticsData_resume (HttpResponse True (Some (Some xs))) s)
                    \<lparr>stars_chart_type := t\<rparr>)) ''stars'' = Some c' \<and>
        chart_type c' = t \<and> labels c' = labels c \<and>
        map ds_data (datasets c') = map ds_data (datasets c))"
  "xs \<noteq> [] \<longrightarrow>
     (\<exists>c c'. charts (loadAnalyticsData_resume (HttpResponse True (Some (Some xs))) s) ''followers''
               = Some c \<and>
        charts (updateChartType ''followers'' t
                 ((loadAnalyticsData_resume (HttpResponse True (Some (Some xs))) s)
                    \<lparr>followers_chart_type := t\<rparr>)) ''followers'' = Some c' \<and>
        chart_type c' = t \<and> labels c' = labels c \<and>
        map ds_data (datasets c') = map ds_data (datasets c))"
proof -
  define p where "p = loadAnalyticsData_resume (HttpResponse True (Some (Some xs))) s"
  have a: "analyticsData p = xs" by (simp add: p_def resume_success_analyticsData)
  show "xs \<noteq> [] \<longrightarrow>
     (\<exists>c c'. charts (loadAnalyticsData_resume (HttpResponse True (Some (Some xs))) s) ''stars''
               = Some c \<and>
        charts (updateChartType ''stars'' t
                 ((loadAnalyticsData_resume (HttpResponse True (Some (Some xs))) s)
                    \<lparr>stars_chart_type := t\<rparr>)) ''stars'' = Some c' \<and>
        chart_type c' = t \<and> labels c' = labels c \<and>
        map ds_data (datasets c') = map ds_data (datasets c))"
  proof
    assume ne: "xs \<noteq> []"
    from loaded_stars_entry [OF ne, of s] obtain c where
      c: "charts p ''stars'' = Some c" "labels c = date_labels (analyticsData p)"
         "map ds_data (datasets c) = [map stars (analyticsData p)]"
      by (simp add: p_def [symmetric] a typed_dataset_def)
    from type_change_in_sync(1) [of p t, rule_format, OF conjI [OF c(1) conjI [OF c(2) c(3)]]]
    obtain c' where c': "charts (updateChartType ''stars'' t (p\<lparr>stars_chart_type := t\<rparr>)) ''stars'' = Some c'"
      "chart_type c' = t" "labels c' = labels c"
      "map ds_data (datasets c') = map ds_data (datasets c)"
      by (elim exE conjE)
    show "\<exists>c c'. charts (loadAnalyticsData_resume (HttpResponse True (Some (Some xs))) s) ''stars''
               = Some c \<and>
        charts (updateChartType ''stars'' t
                 ((loadAnalyticsData_resume (HttpResponse True (Some (Some xs))) s)
                    \<lparr>stars_chart_type := t\<rparr>)) ''stars'' = Some c' \<and>
        chart_type c' = t \<and> labels c' = labels c \<and>
        map ds_data (datasets c') = map ds_data (datasets c)"
      unfolding p_def [symmetric]
      by (rule exI [of _ c], rule exI [of _ c']) (simp add: c(1) c')
  qed
  show "xs \<noteq> [] \<longrightarrow>
     (\<exists>c c'. charts (loadAnalyticsData_resume (HttpResponse True (Some (Some xs))) s) ''followers''
               = Some c \<and>
        charts (updateChartType ''followers'' t
                 ((loadAnalyticsData_resume (HttpResponse True (Some (Some xs))) s)
                    \<lparr>followers_chart_type := t\<rparr>)) ''followers'' = Some c' \<and>
        chart_type c' = t \<and> labels c' = labels c \<and>
        map ds_data (datasets c') = map ds_data (datasets c))"
  proof
    assume ne: "xs \<noteq> []"
    from loaded_followers_entry [OF ne, of s] obtain c where
      c: "charts p ''followers'' = Some c" "labels c = date_labels (analyticsData p)"
         "map ds_data (datasets c)
            = [map followers (analyticsData p), map following (analyticsData p)]"
      by (simp add: p_def [symmetric] a typed_dataset_def)
    from type_change_in_sync(2) [of p t, rule_format, OF conjI [OF c(1) conjI [OF c(2) c(3)]]]
    obtain c' where c': "charts (updateChartType ''followers'' t (p\<lparr>followers_chart_type := t\<rparr>)) ''followers'' = Some c'"
      "chart_type c' = t" "labels c' = labels c"
      "map ds_data (datasets c') = map ds_data (datasets c)"
      by (elim exE conjE)
    show "\<exists>c c'. charts (loadAnalyticsData_resume (HttpResponse True (Some (Some xs))) s) ''followers''
               = Some c \<and>
        charts (updateChartType ''followers'' t
                 ((loadAnalyticsData_resume (HttpResponse True (Some (Some xs))) s)
                    \<lparr>followers_chart_type := t\<rparr>)) ''followers'' = Some c' \<and>
        chart_type c' = t \<and> labels c' = labels c \<and>
        map ds_data (datasets c') = map ds_data (datasets c)"
      unfolding p_def [symmetric]
      by (rule exI [of _ c], rule exI [of _ c']) (simp add: c(1) c')
  qed
qed

text \<open>
  Claim C8, as the code has it. Each of the six render functions appends to the trace first
  the destruction of the chart object the registry holds for its view (if there is one) and
  only then the construction of the new object, which replaces it in the registry and
  leaves the other views' entries alone. For the language view this is so whenever its
  canvas is on the page and the last snapshot has a language: with the canvas on the page
  and no language (or no snapshot) it destroys the previous object and builds none, and
  with the canvas gone it throws at once and does nothing. A change of display type (stars,
  followers) leaves \<open>analyticsData\<close> as it is, destroys the view's previous object and then
  builds one of the chosen type from \<open>analyticsData\<close>. So the series of the new chart are
  those of the chart it replaces whenever that chart showed the held sequence, as it does
  after any load that delivered at least one snapshot.
\<close>

theorem rerender_destroys_previous_chart:
  "(\<exists>c'. effects (renderStarsChart s) =
            effects s @ (case charts s ''stars'' of None \<Rightarrow> []
                         | Some c \<Rightarrow> [ChartDestroy (chart_id c)]) @ [ChartNew c'] \<and>
          charts (renderStarsChart s) = (charts s)(''stars'' \<mapsto> c')) \<and>
   (\<exists>c'. effects (renderFollowersChart s) =
            effects s @ (case charts s ''followers'' of None \<Rightarrow> []
                         | Some c \<Rightarrow> [ChartDestroy (chart_id c)]) @ [ChartNew c'] \<and>
          charts (renderFollowersChart s) = (charts s)(''followers'' \<mapsto> c')) \<and>
   (\<exists>c'. effects (renderReposChart s) =
            effects s @ (case charts s ''repos'' of None \<Rightarrow> []
                         | Some c \<Rightarrow> [ChartDestroy (chart_id c)]) @ [ChartNew c'] \<and>
          charts (renderReposChart s) = (charts s)(''repos'' \<mapsto> c')) \<and>
   (\<exists>c'. effects (renderCommitsChart s) =
            effects s @ (case charts s ''commits'' of None \<Rightarrow> []
                         | Some c \<Rightarrow> [ChartDestroy (chart_id c)]) @ [ChartNew c'] \<and>
          charts (renderCommitsChart s) = (charts s)(''commits'' \<mapsto> c')) \<and>
   (\<exists>c'. effects (renderContributionChart s) =
            effects s @ (case charts s ''contribution'' of None \<Rightarrow> []
                         | Some c \<Rightarrow> [ChartDestroy (chart_id c)]) @ [ChartNew c'] \<and>
          charts (renderContributionChart s) = (charts s)(''contribution'' \<mapsto> c')) \<and>
   ((if language_card s \<noteq> LanguageCanvas
    then renderLanguageChart s
           = Threw (TypeError ''Cannot read properties of null (reading getContext)'') s
    else if analyticsData s = []
    then \<exists>s'. renderLanguageChart s
             = Threw (TypeError ''Cannot read properties of undefined (reading language_stats)'') s' \<and>
           effects s' = effects s @ (case charts s ''language'' of None \<Rightarrow> []
                                      | Some c \<Rightarrow> [ChartDestroy (chart_id c)]) \<and>
           charts s' = charts s
    else if (case language_stats (last (analyticsData s)) of None \<Rightarrow> [] | Some m \<Rightarrow> m) = []
    then \<exists>s'. renderLanguageChart s = Normal s' \<and>
           effects s' = effects s @ (case charts s ''language'' of None \<Rightarrow> []
                                      | Some c \<Rightarrow> [ChartDestroy (chart_id c)]) \<and>
           charts s' = charts s \<and> language_card s' = NoLanguageData
    else \<exists>s' c'. renderLanguageChart s = Normal s' \<and>
           effects s' = effects s @ (case charts s ''language'' of None \<Rightarrow> []
                                      | Some c \<Rightarrow> [ChartDestroy (chart_id c)]) @ [ChartNew c'] \<and>
           charts s' = (charts s)(''language'' \<mapsto> c') \<and>
           chart_type c' = ''doughnut'' \<and>
           labels c' = map (Plain \<circ> fst)
             (case language_stats (last (analyticsData s)) of None \<Rightarrow> [] | Some m \<Rightarrow> m) \<and>
           map ds_data (datasets c') = [map snd
             (case language_stats (last (analyticsData s)) of None \<Rightarrow> [] | Some m \<Rightarrow> m)])) \<and>
   (analyticsData (updateChartType ''stars'' t (s\<lparr>stars_chart_type := t\<rparr>)) = analyticsData s) \<and>
   (\<exists>c'. charts (updateChartType ''stars'' t (s\<lparr>stars_chart_type := t\<rparr>))
           = (charts s)(''stars'' \<mapsto> c') \<and>
        effects (updateChartType ''stars'' t (s\<lparr>stars_chart_type := t\<rparr>))
           = effects s @ (case charts s ''stars'' of None \<Rightarrow> []
                          | Some c \<Rightarrow> [ChartDestroy (chart_id c)]) @ [ChartNew c'] \<and>
        chart_type c' = t \<and> labels c' = date_labels (analyticsData s) \<and>
        map ds_data (datasets c') = [map stars (analyticsData s)]) \<and>
   (analyticsData (updateChartType ''followers'' t (s\<lparr>followers_chart_type := t\<rparr>)) = analyticsData s) \<and>
   (\<exists>c'. charts (updateChartType ''followers'' t (s\<lparr>followers_chart_type := t\<rparr>))
           = (charts s)(''followers'' \<mapsto> c') \<and>
        effects (updateChartType ''followers'' t (s\<lparr>followers_chart_type := t\<rparr>))
           = effects s @ (case charts s ''followers'' of None \<Rightarrow> []
                          | Some c \<Rightarrow> [ChartDestroy (chart_id c)]) @ [ChartNew c'] \<and>
        chart_type c' = t \<and> labels c' = date_labels (analyticsData s) \<and>
        map ds_data (datasets c')
          = [map followers (analyticsData s), map following (analyticsData s)]) \<and>
   (\<forall>c. charts s ''stars'' = Some c \<and> labels c = date_labels (analyticsData s) \<and>
        map ds_data (datasets c) = [map stars (analyticsData s)] \<longrightarrow>
      (\<exists>c'. charts (updateChartType ''stars'' t (s\<lparr>stars_chart_type := t\<rparr>)) ''stars'' = Some c' \<and>
            chart_type c' = t \<and> labels c' = labels c \<and>
            map ds_data (datasets c') = map ds_data (datasets c))) \<and>
   (\<forall>c. charts s ''followers'' = Some c \<and> labels c = date_labels (analyticsData s) \<and>
        map ds_data (datasets c)
          = [map followers (analyticsData s), map following (analyticsData s)] \<longrightarrow>
      (\<exists>c'. charts (updateChartType ''followers'' t (s\<lparr>followers_chart_type := t\<rparr>)) ''followers''
              = Some c' \<and>
            chart_type c' = t \<and> labels c' = labels c \<and>
            map ds_data (datasets c') = map ds_data (datasets c))) \<and>
   (xs \<noteq> [] \<longrightarrow>
     (\<exists>c c'. charts (loadAnalyticsData_resume (HttpResponse True (Some (Some xs))) s) ''stars''
               = Some c \<and>
        charts (updateChartType ''stars'' t
                 ((loadAnalyticsData_resume (HttpResponse True (Some (Some xs))) s)
                    \<lparr>stars_chart_type := t\<rparr>)) ''stars'' = Some c' \<and>
        chart_type c' = t \<and> labels c' = labels c \<and>
        map ds_data (datasets c') = map ds_data (datasets c))) \<and>
   (xs \<noteq> [] \<longrightarrow>
     (\<exists>c c'. charts (loadAnalyticsData_resume (HttpResponse True (Some (Some xs))) s) ''followers''
               = Some c \<and>
        charts (updateChartType ''followers'' t
                 ((loadAnalyticsData_resume (HttpResponse True (Some (Some xs))) s)
                    \<lparr>followers_chart_type := t\<rparr>)) ''followers'' = Some c' \<and>
        chart_type c' = t \<and> labels c' = labels c \<and>
        map ds_data (datasets c') = map ds_data (datasets c)))"
  by (intro conjI render_trace language_render_cases type_change_analyticsData
      type_change_stars type_change_followers type_change_in_sync type_change_after_load)

lemma january_loaded_stars:
  "charts (loadAnalyticsData_resume (HttpResponse True (Some (Some january))) signed_in_page) ''stars''
     = Some \<lparr>chart_id = 0, canvas = ''stars-chart'', chart_type = ''line'',
         labels = [DateLocaleString ''2024-01-01'', DateLocaleString ''2024-01-31''],
         datasets = [typed_dataset ''line'' ''Total Stars'' COLORS_primary [10, 25]]\<rparr>"
proof -
  have ne: "january \<noteq> []" by (simp add: january_def)
  show ?thesis
    unfolding loaded_stars_entry [OF ne]
    by (simp add: signed_in_page_def date_labels_def january_def)
qed

lemma january_loaded_followers:
  "charts (loadAnalyticsData_resume (HttpResponse True (Some (Some january))) signed_in_page)
     ''followers''
     = Some \<lparr>chart_id = 1, canvas = ''followers-chart'', chart_type = ''line'',
         labels = [DateLocaleString ''2024-01-01'', DateLocaleString ''2024-01-31''],
         datasets = [typed_dataset ''line'' ''Followers'' COLORS_success [3, 7],
                     typed_dataset ''line'' ''Following'' COLORS_info [2, 4]]\<rparr>"
proof -
  have ne: "january \<noteq> []" by (simp add: january_def)
  show ?thesis
    unfolding loaded_followers_entry [OF ne]
    by (simp add: signed_in_page_def date_labels_def january_def)
qed

text \<open>
  After a load of the January sequence the stars and followers charts show that sequence;
  a change to bars keeps their labels and values.
\<close>

theorem rerender_destroys_previous_chart_witness:
  "january \<noteq> [] \<and>
   labels (the (charts (loadAnalyticsData_resume (HttpResponse True (Some (Some january))) signed_in_page) ''stars''))
     = date_labels (analyticsData (loadAnalyticsData_resume (HttpResponse True (Some (Some january))) signed_in_page)) \<and>
   map ds_data (datasets (the (charts (loadAnalyticsData_resume (HttpResponse True (Some (Some january))) signed_in_page) ''stars'')))
     = [map stars (analyticsData (loadAnalyticsData_resume (HttpResponse True (Some (Some january))) signed_in_page))] \<and>
   labels (the (charts (loadAnalyticsData_resume (HttpResponse True (Some (Some january))) signed_in_page) ''followers''))
     = date_labels (analyticsData (loadAnalyticsData_resume (HttpResponse True (Some (Some january))) signed_in_page)) \<and>
   map ds_data (datasets (the (charts (loadAnalyticsData_resume (HttpResponse True (Some (Some january))) signed_in_page) ''followers'')))
     = [map followers (analyticsData (loadAnalyticsData_resume (HttpResponse True (Some (Some january))) signed_in_page)),
        map following (analyticsData (loadAnalyticsData_resume (HttpResponse True (Some (Some january))) signed_in_page))] \<and>
   chart_type (the (charts (updateChartType ''stars'' ''bar''
       ((loadAnalyticsData_resume (HttpResponse True (Some (Some january))) signed_in_page)\<lparr>stars_chart_type := ''bar''\<rparr>)) ''stars'')) = ''bar'' \<and>
   labels (the (charts (updateChartType ''stars'' ''bar''
       ((loadAnalyticsData_resume (HttpResponse True (Some (Some january))) signed_in_page)\<lparr>stars_chart_type := ''bar''\<rparr>)) ''stars''))
     = [DateLocaleString ''2024-01-01'', DateLocaleString ''2024-01-31''] \<and>
   map ds_data (datasets (the (charts (updateChartType ''stars'' ''bar''
       ((loadAnalyticsData_resume (HttpResponse True (Some (Some january))) signed_in_page)\<lparr>stars_chart_type := ''bar''\<rparr>)) ''stars''))) = [[10, 25]] \<and>
   chart_type (the (charts (updateChartType ''followers'' ''bar''
       ((loadAnalyticsData_resume (HttpResponse True (Some (Some january))) signed_in_page)\<lparr>followers_chart_type := ''bar''\<rparr>)) ''followers'')) = ''bar'' \<and>
   labels (the (charts (updateChartType ''followers'' ''bar''
       ((loadAnalyticsData_resume (HttpResponse True (Some (Some january))) signed_in_page)\<lparr>followers_chart_type := ''bar''\<rparr>)) ''followers''))
     = [DateLocaleString ''2024-01-01'', DateLocaleString ''2024-01-31''] \<and>
   map ds_data (datasets (the (charts (updateChartType ''followers'' ''bar''
       ((loadAnalyticsData_resume (HttpResponse True (Some (Some january))) signed_in_page)\<lparr>followers_chart_type := ''bar''\<rparr>)) ''followers''))) = [[3, 7], [2, 4]]"
proof -
  define p where "p = loadAnalyticsData_resume (HttpResponse True (Some (Some january))) signed_in_page"
  define cs where "cs = \<lparr>chart_id = 0, canvas = ''stars-chart'', chart_type = ''line'',
         labels = [DateLocaleString ''2024-01-01'', DateLocaleString ''2024-01-31''],
         datasets = [typed_dataset ''line'' ''Total Stars'' COLORS_primary [10, 25]]\<rparr>"
  define cf where "cf = \<lparr>chart_id = 1, canvas = ''followers-chart'', chart_type = ''line'',
         labels = [DateLocaleString ''2024-01-01'', DateLocaleString ''2024-01-31''],
         datasets = [typed_dataset ''line'' ''Followers'' COLORS_success [3, 7],
                     typed_dataset ''line'' ''Following'' COLORS_info [2, 4]]\<rparr>"
  have ne: "january \<noteq> []" by (simp add: january_def)
  have a: "analyticsData p = january" by (simp add: p_def resume_success_analyticsData)
  have s1: "charts p ''stars'' = Some cs"
    unfolding p_def cs_def by (rule january_loaded_stars)
  have s2: "labels cs = date_labels (analyticsData p)"
    by (simp add: a cs_def date_labels_def january_def)
  have s3: "map ds_data (datasets cs) = [map stars (analyticsData p)]"
    by (simp add: a cs_def typed_dataset_def january_def)
  have f1: "charts p ''followers'' = Some cf"
    unfolding p_def cf_def by (rule january_loaded_followers)
  have f2: "labels cf = date_labels (analyticsData p)"
    by (simp add: a cf_def date_labels_def january_def)
  have f3: "map ds_data (datasets cf)
      = [map followers (analyticsData p), map following (analyticsData p)]"
    by (simp add: a cf_def typed_dataset_def january_def)
  note at_p = rerender_destroys_previous_chart [where s = p and t = "''bar''" and xs = january]
  note at_start = rerender_destroys_previous_chart
      [where s = signed_in_page and t = "''bar''" and xs = january]
  have in_sync_stars: "\<forall>c. charts p ''stars'' = Some c \<and> labels c = date_labels (analyticsData p) \<and>
        map ds_data (datasets c) = [map stars (analyticsData p)] \<longrightarrow>
      (\<exists>c'. charts (updateChartType ''stars'' ''bar'' (p\<lparr>stars_chart_type := ''bar''\<rparr>)) ''stars''
              = Some c' \<and>
            chart_type c' = ''bar'' \<and> labels c' = labels c \<and>
            map ds_data (datasets c') = map ds_data (datasets c))"
    using at_p by (elim conjE)
  have in_sync_followers: "\<forall>c. charts p ''followers'' = Some c \<and>
        labels c = date_labels (analyticsData p) \<and>
        map ds_data (datasets c)
          = [map followers (analyticsData p), map following (analyticsData p)] \<longrightarrow>
      (\<exists>c'. charts (updateChartType ''followers'' ''bar'' (p\<lparr>followers_chart_type := ''bar''\<rparr>))
              ''followers'' = Some c' \<and>
            chart_type c' = ''bar'' \<and> labels c' = labels c \<and>
            map ds_data (datasets c') = map ds_data (datasets c))"
    using at_p by (elim conjE)
  have after_load_stars: "january \<noteq> [] \<longrightarrow>
     (\<exists>c c'. charts p ''stars'' = Some c \<and>
        charts (updateChartType ''stars'' ''bar'' (p\<lparr>stars_chart_type := ''bar''\<rparr>)) ''stars''
          = Some c' \<and>
        chart_type c' = ''bar'' \<and> labels c' = labels c \<and>
        map ds_data (datasets c') = map ds_data (datasets c))"
    using at_start unfolding p_def [symmetric] by (elim conjE)
  have after_load_followers: "january \<noteq> [] \<longrightarrow>
     (\<exists>c c'. charts p ''followers'' = Some c \<and>
        charts (updateChartType ''followers'' ''bar'' (p\<lparr>followers_chart_type := ''bar''\<rparr>))
          ''followers'' = Some c' \<and>
        chart_type c' = ''bar'' \<and> labels c' = labels c \<and>
        map ds_data (datasets c') = map ds_data (datasets c))"
    using at_start unfolding p_def [symmetric] by (elim conjE)
  from in_sync_stars [rule_format, OF conjI [OF s1 conjI [OF s2 s3]]]
  obtain c1 where c1:
    "charts (updateChartType ''stars'' ''bar'' (p\<lparr>stars_chart_type := ''bar''\<rparr>)) ''stars''
       = Some c1"
    "chart_type c1 = ''bar''" "labels c1 = labels cs"
    "map ds_data (datasets c1) = map ds_data (datasets cs)"
    by (elim exE conjE)
  from in_sync_followers [rule_format, OF conjI [OF f1 conjI [OF f2 f3]]]
  obtain c2 where c2:
    "charts (updateChartType ''followers'' ''bar'' (p\<lparr>followers_chart_type := ''bar''\<rparr>))
       ''followers'' = Some c2"
    "chart_type c2 = ''bar''" "labels c2 = labels cf"
    "map ds_data (datasets c2) = map ds_data (datasets cf)"
    by (elim exE conjE)
  from after_load_stars [rule_format, OF ne]
  obtain c3 c4 where c34: "charts p ''stars'' = Some c3"
    "charts (updateChartType ''stars'' ''bar'' (p\<lparr>stars_chart_type := ''bar''\<rparr>)) ''stars''
       = Some c4"
    "chart_type c4 = ''bar''" "labels c4 = labels c3"
    "map ds_data (datasets c4) = map ds_data (datasets c3)"
    by (elim exE conjE)
  from after_load_followers [rule_format, OF ne]
  obtain c5 c6 where c56: "charts p ''followers'' = Some c5"
    "charts (updateChartType ''followers'' ''bar'' (p\<lparr>followers_chart_type := ''bar''\<rparr>))
       ''followers'' = Some c6"
    "chart_type c6 = ''bar''" "labels c6 = labels c5"
    "map ds_data (datasets c6) = map ds_data (datasets c5)"
    by (elim exE conjE)
  have same: "c3 = cs" "c4 = c1" "c5 = cf" "c6 = c2"
    using s1 f1 c1(1) c2(1) c34(1,2) c56(1,2) by simp_all
  have vs: "labels cs = [DateLocaleString ''2024-01-01'', DateLocaleString ''2024-01-31'']"
    "map ds_data (datasets cs) = [[10, 25]]"
    "labels cf = [DateLocaleString ''2024-01-01'', DateLocaleString ''2024-01-31'']"
    "map ds_data (datasets cf) = [[3, 7], [2, 4]]"
    by (simp_all add: cs_def cf_def typed_dataset_def)
  show ?thesis
    unfolding p_def [symmetric]
    using ne s1 s2 s3 f1 f2 f3 c1 c2 c34(3,4,5) c56(3,4,5) same vs by simp
qed

text \<open>
  Claim C8 as stated fails after an empty load, which leaves the charts of the earlier range
  in place (claim C10): the stars chart still shows 10 and 25, and a change to bars
  replaces it by a chart with no labels and no values.
\<close>

theorem type_change_after_empty_load_counterexample:
  "map ds_data (datasets (the (charts
       (loadAnalyticsData_resume (HttpResponse True (Some (Some [])))
          (loadAnalyticsData_resume (HttpResponse True (Some (Some january))) signed_in_page))
       ''stars''))) = [[10, 25]] \<and>
   map ds_data (datasets (the (charts
       (updateChartType ''stars'' ''bar''
          ((loadAnalyticsData_resume (HttpResponse True (Some (Some [])))
              (loadAnalyticsData_resume (HttpResponse True (Some (Some january))) signed_in_page))
             \<lparr>stars_chart_type := ''bar''\<rparr>))
       ''stars''))) = [[]] \<and>
   labels (the (charts
       (loadAnalyticsData_resume (HttpResponse True (Some (Some [])))
          (loadAnalyticsData_resume (HttpResponse True (Some (Some january))) signed_in_page))
       ''stars'')) = [DateLocaleString ''2024-01-01'', DateLocaleString ''2024-01-31''] \<and>
   labels (the (charts
       (updateChartType ''stars'' ''bar''
          ((loadAnalyticsData_resume (HttpResponse True (Some (Some [])))
              (loadAnalyticsData_resume (HttpResponse True (Some (Some january))) signed_in_page))
             \<lparr>stars_chart_type := ''bar''\<rparr>))
       ''stars'')) = []"
proof -
  define p where "p = loadAnalyticsData_resume (HttpResponse True (Some (Some january))) signed_in_page"
  have c: "charts p ''stars''
     = Some \<lparr>chart_id = 0, canvas = ''stars-chart'', chart_type = ''line'',
         labels = [DateLocaleString ''2024-01-01'', DateLocaleString ''2024-01-31''],
         datasets = [typed_dataset ''line'' ''Total Stars'' COLORS_primary [10, 25]]\<rparr>"
    unfolding p_def by (rule january_loaded_stars)
  have e: "loadAnalyticsData_resume (HttpResponse True (Some (Some []))) p
      = p\<lparr>analyticsData := [], metrics_grid := NoAnalyticsData\<rparr>"
    by (rule resume_empty)
  have u: "charts (updateChartType ''stars'' ''bar''
        (p\<lparr>analyticsData := [], metrics_grid := NoAnalyticsData, stars_chart_type := ''bar''\<rparr>))
      ''stars''
      = Some \<lparr>chart_id = next_chart_id p, canvas = ''stars-chart'', chart_type = ''bar'',
          labels = [], datasets = [typed_dataset ''bar'' ''Total Stars'' COLORS_primary []]\<rparr>"
    by (simp add: updateChartType_def renderStarsChart_entry date_labels_def)
  show ?thesis
    unfolding p_def [symmetric] e
    by (simp add: c u typed_dataset_def)
qed

subsection \<open>Loading\<close>

text \<open>
  Claim C9. When the \<open>fetch\<close> rejects or the response is not ok (or its body cannot be
  read), the continuation only runs the \<open>catch\<close> block: the state changes in nothing but
  the trace, which gains the two console errors and the alert; so \<open>analyticsData\<close> is what
  it was.
\<close>

theorem failed_load_keeps_sequence:
  "loadAnalyticsData_resume NetworkError s = load_catch Rejected s \<and>
   loadAnalyticsData_resume (HttpResponse False body) s
     = load_catch (Error ''Failed to fetch analytics data'') s \<and>
   loadAnalyticsData_resume (HttpResponse True None) s = load_catch Rejected s \<and>
   analyticsData (load_catch e s) = analyticsData s \<and>
   load_catch e s = s\<lparr>effects := effects s @
       [ConsoleError ''Error loading analytics data:'' (Some e),
        ConsoleError ''Failed to load analytics data. Please try again.'' None,
        Alert ''Failed to load analytics data. Please try again.'']\<rparr>"
  by (simp add: loadAnalyticsData_resume_def load_catch_def showError_def)

text \<open>
  Claim C6. When the response is ok and carries no snapshots (an empty array, or no
  \<open>snapshots\<close> property), the whole effect of the load is that of \<open>showEmptyState\<close> on the
  page with the empty sequence: the metrics grid shows the empty state, and the metric
  cards, the chart counter and the trace are what they were, so no metric was computed and
  no chart was destroyed or built.
\<close>

theorem empty_load_shows_empty_state:
  "loadAnalyticsData_resume (HttpResponse True (Some (Some []))) s
     = showEmptyState (s\<lparr>analyticsData := []\<rparr>) \<and>
   loadAnalyticsData_resume (HttpResponse True (Some None)) s
     = showEmptyState (s\<lparr>analyticsData := []\<rparr>) \<and>
   metrics_grid (showEmptyState (s\<lparr>analyticsData := []\<rparr>)) = NoAnalyticsData \<and>
   metric_value (showEmptyState (s\<lparr>analyticsData := []\<rparr>)) = metric_value s \<and>
   metric_change (showEmptyState (s\<lparr>analyticsData := []\<rparr>)) = metric_change s \<and>
   next_chart_id (showEmptyState (s\<lparr>analyticsData := []\<rparr>)) = next_chart_id s \<and>
   effects (showEmptyState (s\<lparr>analyticsData := []\<rparr>)) = effects s"
  by (simp add: loadAnalyticsData_resume_def showEmptyState_def)

text \<open>
  Claim C10. After a load with zero snapshots the held sequence is empty and the metrics
  grid shows the empty state; nothing else has changed, in particular the chart registry,
  the language panel and the rows of the table still are those of the earlier load.
\<close>

theorem empty_load_leaves_charts_and_table:
  "analyticsData (loadAnalyticsData_resume (HttpResponse True (Some (Some []))) s) = [] \<and>
   loadAnalyticsData_resume (HttpResponse True (Some (Some []))) s
     = s\<lparr>analyticsData := [], metrics_grid := NoAnalyticsData\<rparr> \<and>
   loadAnalyticsData_resume (HttpResponse True (Some None)) s
     = s\<lparr>analyticsData := [], metrics_grid := NoAnalyticsData\<rparr> \<and>
   charts (loadAnalyticsData_resume (HttpResponse True (Some (Some []))) s) = charts s \<and>
   table_body (loadAnalyticsData_resume (HttpResponse True (Some (Some []))) s) = table_body s \<and>
   language_card (loadAnalyticsData_resume (HttpResponse True (Some (Some []))) s) = language_card s"
  by (simp add: loadAnalyticsData_resume_def showEmptyState_def)

lemma map_of_filter_other:
  "k \<noteq> j \<Longrightarrow> map_of (filter (\<lambda>(i, _). i \<noteq> j) ps) k = map_of ps k"
  by (induction ps) auto

text \<open>
  Claim C1, as the code has it. Of two loads in flight whose responses both succeed, the one
  whose response arrives last sets the held sequence, whichever was issued first: the
  continuation stores the snapshots of its own response and never compares its request with
  the latest one issued.
\<close>

theorem last_completed_load_wins:
  assumes "map_of (pending b) k1 = Some r1" and "map_of (pending b) k2 = Some r2"
    and "k1 \<noteq> k2"
    and "server r1 = HttpResponse True (Some (Some xs1))"
    and "server r2 = HttpResponse True (Some (Some xs2))"
  shows "analyticsData (the_page (run server b [LoadResponse k2, LoadResponse k1])) = xs1"
proof -
  define b' where "b' = step server b (LoadResponse k2)"
  have "map_of (pending b') k1 = Some r1"
    using assms(1,2,3) by (simp add: b'_def step_def map_of_filter_other)
  then have "analyticsData (the_page (step server b' (LoadResponse k1))) = xs1"
    using assms(4) by (simp add: step_def resume_success_analyticsData)
  then show ?thesis by (simp add: run_def b'_def)
qed

text \<open>
  Two date changes issue the loads 0 (from 1 January) and 1 (from 1 February); response 1
  arrives, then response 0.
\<close>

theorem last_completed_load_wins_witness:
  "analyticsData (the_page (run range_server
       (run range_server signed_in_browser
          [StartDateChange ''2024-01-01'', StartDateChange ''2024-02-01''])
       [LoadResponse 1, LoadResponse 0])) = january"
proof -
  define b where "b = run range_server signed_in_browser
          [StartDateChange ''2024-01-01'', StartDateChange ''2024-02-01'']"
  have p: "pending b
     = [(0, \<lparr>req_startDate = ''2024-01-01'', req_endDate = ''2024-03-31'', req_token = Some ''token''\<rparr>),
        (1, \<lparr>req_startDate = ''2024-02-01'', req_endDate = ''2024-03-31'', req_token = Some ''token''\<rparr>)]"
    by (simp add: b_def run_def step_def issue_load_def loadAnalyticsData_begin_def
        signed_in_browser_def signed_in_page_def)
  have h1: "map_of (pending b) 0
      = Some \<lparr>req_startDate = ''2024-01-01'', req_endDate = ''2024-03-31'', req_token = Some ''token''\<rparr>"
    by (simp add: p)
  have h2: "map_of (pending b) 1
      = Some \<lparr>req_startDate = ''2024-02-01'', req_endDate = ''2024-03-31'', req_token = Some ''token''\<rparr>"
    by (simp add: p)
  have h3: "(0::nat) \<noteq> 1" by simp
  have h4: "range_server \<lparr>req_startDate = ''2024-01-01'', req_endDate = ''2024-03-31'', req_token = Some ''token''\<rparr>
      = HttpResponse True (Some (Some january))"
    by (simp add: range_server_def)
  have h5: "range_server \<lparr>req_startDate = ''2024-02-01'', req_endDate = ''2024-03-31'', req_token = Some ''token''\<rparr>
      = HttpResponse True (Some (Some february))"
    by (simp add: range_server_def)
  show ?thesis
    using last_completed_load_wins [OF h1 h2 h3 h4 h5] by (simp only: b_def)
qed

text \<open>
  Claim C1 as stated fails on that run: the load issued last asked for the range from
  1 February, and the sequence held at the end is January's.
\<close>

theorem stale_response_overwrites:
  "pending (run range_server signed_in_browser
             [StartDateChange ''2024-01-01'', StartDateChange ''2024-02-01''])
     = [(0, \<lparr>req_startDate = ''2024-01-01'', req_endDate = ''2024-03-31'', req_token = Some ''token''\<rparr>),
        (1, \<lparr>req_startDate = ''2024-02-01'', req_endDate = ''2024-03-31'', req_token = Some ''token''\<rparr>)] \<and>
   range_server \<lparr>req_startDate = ''2024-02-01'', req_endDate = ''2024-03-31'', req_token = Some ''token''\<rparr>
     = HttpResponse True (Some (Some february)) \<and>
   analyticsData (the_page (run range_server signed_in_browser
             [StartDateChange ''2024-01-01'', StartDateChange ''2024-02-01'',
              LoadResponse 1, LoadResponse 0])) = january \<and>
   january \<noteq> february"
  by (simp add: run_def step_def issue_load_def loadAnalyticsData_begin_def signed_in_browser_def
      signed_in_page_def range_server_def resume_success_analyticsData january_def february_def)

subsection \<open>Exporting\<close>

text \<open>
  Claim C7. When the export's \<open>fetch\<close> rejects or its response is not ok (or its body
  cannot be read), the continuation only runs the \<open>catch\<close> block: the trace gains the
  console errors and the alert that the export failed, and the held sequence, the two
  dates, the two display types and the export dialog are what they were.
\<close>

theorem export_failure_frame:
  "exportData_resume format now NetworkError s = export_catch Rejected s \<and>
   exportData_resume format now (HttpResponse False body) s
     = export_catch (Error ''Export failed'') s \<and>
   exportData_resume format now (HttpResponse True None) s = export_catch Rejected s \<and>
   export_catch e s = s\<lparr>effects := effects s @
       [ConsoleError ''Export error:'' (Some e),
        ConsoleError ''Failed to export data. Please try again.'' None,
        Alert ''Failed to export data. Please try again.'']\<rparr> \<and>
   analyticsData (export_catch e s) = analyticsData s \<and>
   start_date (export_catch e s) = start_date s \<and>
   end_date (export_catch e s) = end_date s \<and>
   stars_chart_type (export_catch e s) = stars_chart_type s \<and>
   followers_chart_type (export_catch e s) = followers_chart_type s \<and>
   export_modal_display (export_catch e s) = export_modal_display s"
  by (simp add: exportData_resume_def export_catch_def showError_def)

end
